theory Spec2Isabelle
  imports Complex_Main "HOL-Library.Char_ord" "HOL-Library.List_Lexorder"
begin

section \<open>Values of the host language\<close>

text \<open>
  The routes are TypeScript. Numbers that the code only adds, subtracts and compares are
  integers here; a quotient is a rational, so an average is the exact one.
  \<open>Math.round\<close> rounds to the nearest integer, a half upwards. Here it acts on the exact
  value, where the code's acts on the double that its divisions and multiplications
  produce; the two can part where the exact value is a half, or within a rounding error
  of one: the percentage of 115 in 200 is 58 here and 57 in the code. The properties below
  are stated of the exact values.
\<close>

definition js_round :: "rat \<Rightarrow> int" where
  "js_round x = \<lfloor>x + 1 / 2\<rfloor>"

text \<open>\<open>Math.round(x * 10) / 10\<close>: one decimal.\<close>

definition round1 :: "rat \<Rightarrow> rat" where
  "round1 x = of_int (js_round (x * 10)) / 10"

text \<open>
  An object used as a dictionary: the entries in insertion order, which is the order of
  \<open>Object.entries\<close> and \<open>Object.values\<close> for keys that are not array indices.
  \<open>modify k d f\<close> is the idiom \<open>if (!obj[k]) obj[k] = d; f(obj[k])\<close> for values that are
  objects themselves.
\<close>

fun modify :: "'k \<Rightarrow> 'v \<Rightarrow> ('v \<Rightarrow> 'v) \<Rightarrow> ('k \<times> 'v) list \<Rightarrow> ('k \<times> 'v) list" where
  "modify k d f [] = [(k, f d)]"
| "modify k d f ((k', v) # kvs) =
     (if k = k' then (k', f v) # kvs else (k', v) # modify k d f kvs)"

section \<open>Stored rows\<close>

text \<open>
  A row of the table of habit entries. The columns \<open>type\<close> and \<open>notes\<close> are
  \<open>entry_type\<close> and \<open>entry_notes\<close> here. A
  timestamp is the number of milliseconds since the epoch, as \<open>Date.getTime\<close> gives it.
\<close>

record HabitEntry =
  rawText :: string
  activity :: string
  entry_type :: "string option"
  category :: "string option"
  quantity :: "rat option"
  unit :: "string option"
  mood :: "string option"
  sentiment :: "string option"
  trigger :: "string option"
  entry_notes :: "string option"
  tags :: "string option"
  date :: int

text \<open>An entry with nothing but its time set, for the examples below.\<close>

definition blank_entry :: "int \<Rightarrow> HabitEntry" where
  "blank_entry t =
     \<lparr>rawText = ''-'', activity = ''-'', entry_type = None, category = None, quantity = None,
      unit = None, mood = None, sentiment = None, trigger = None, entry_notes = None,
      tags = None, date = t\<rparr>"

text \<open>
  The server's time zone is a fixed offset \<open>tz\<close>, in minutes east of Greenwich (no
  daylight saving). \<open>utc_day\<close> numbers the days of \<open>toISOString().split('T')[0]\<close>,
  \<open>local_day\<close> those of the local calendar (\<open>format(d, 'yyyy-MM-dd')\<close>, \<open>getDate\<close>);
  both date strings name their day one to one.
\<close>

definition ms_per_day :: int where
  "ms_per_day = 86400000"

definition utc_day :: "int \<Rightarrow> int" where
  "utc_day t = t div ms_per_day"

definition local_ms :: "int \<Rightarrow> int \<Rightarrow> int" where
  "local_ms tz t = t + tz * 60000"

definition local_day :: "int \<Rightarrow> int \<Rightarrow> int" where
  "local_day tz t = local_ms tz t div ms_per_day"


section \<open>Gamification: levels\<close>

record level_info =
  lv_min :: int
  level :: nat
  title :: string
  icon :: "int list"

text \<open>The icon of a level is an emoji, kept as its code points.\<close>

definition levels :: "level_info list" where
  "levels =
    [\<lparr>lv_min = 0, level = 1, title = ''Beginner'', icon = [127793]\<rparr>,
     \<lparr>lv_min = 50, level = 2, title = ''Apprentice'', icon = [128214]\<rparr>,
     \<lparr>lv_min = 150, level = 3, title = ''Habit Builder'', icon = [127959, 65039]\<rparr>,
     \<lparr>lv_min = 300, level = 4, title = ''Consistent'', icon = [9878, 65039]\<rparr>,
     \<lparr>lv_min = 500, level = 5, title = ''Dedicated'', icon = [128142]\<rparr>,
     \<lparr>lv_min = 800, level = 6, title = ''Habit Master'', icon = [127919]\<rparr>,
     \<lparr>lv_min = 1200, level = 7, title = ''Champion'', icon = [127942]\<rparr>,
     \<lparr>lv_min = 1700, level = 8, title = ''Legend'', icon = [11088]\<rparr>,
     \<lparr>lv_min = 2500, level = 9, title = ''Habit God'', icon = [128081]\<rparr>,
     \<lparr>lv_min = 3500, level = 10, title = ''Transcendent'', icon = [127775]\<rparr>]"

text \<open>
  \<open>calculateLevel\<close> walks the table from its last row down and returns the first row whose
  minimum the points reach; below every minimum it returns the first row.
\<close>

fun level_scan :: "int \<Rightarrow> level_info list \<Rightarrow> level_info option" where
  "level_scan points [] = None"
| "level_scan points (l # ls) = (if lv_min l \<le> points then Some l else level_scan points ls)"

definition calculateLevel :: "int \<Rightarrow> level_info" where
  "calculateLevel points =
     (case level_scan points (rev levels) of Some l \<Rightarrow> l | None \<Rightarrow> hd levels)"

record level_progress =
  current :: int
  needed :: int
  progress :: int

definition levelThresholds :: "int list" where
  "levelThresholds = [0, 50, 150, 300, 500, 800, 1200, 1700, 2500, 3500, 5000]"

text \<open>
  The loop of \<open>getNextLevelProgress\<close> over \<open>i\<close> and \<open>i + 1\<close>: the list argument is the
  table from index \<open>i\<close> on.
\<close>

fun progress_scan :: "int \<Rightarrow> int list \<Rightarrow> level_progress option" where
  "progress_scan points (lo # hi # rest) =
     (if lo \<le> points \<and> points < hi
      then Some \<lparr>current = points - lo, needed = hi - lo,
                 progress = js_round (of_int (points - lo) / of_int (hi - lo) * 100)\<rparr>
      else progress_scan points (hi # rest))"
| "progress_scan points rest = None"

definition getNextLevelProgress :: "int \<Rightarrow> level_progress" where
  "getNextLevelProgress points =
     (case progress_scan points levelThresholds of
        Some r \<Rightarrow> r
      | None \<Rightarrow> \<lparr>current = points, needed = 100, progress = 100\<rparr>)"

section \<open>Heat map: the sentiment view\<close>

record sentiment_day =
  positive :: nat
  neutral :: nat
  negative :: nat
  total_n :: nat

definition empty_sentiment_day :: sentiment_day where
  "empty_sentiment_day = \<lparr>positive = 0, neutral = 0, negative = 0, total_n = 0\<rparr>"

text \<open>
  One entry of a day: \<open>total++\<close>, then \<open>dayData[dateKey][entry.sentiment]++\<close> when the
  sentiment is a non-empty string. The key is whatever the entry holds: the three names and
  \<open>total\<close> hit a counter, any other key leaves the four counters alone.
\<close>

definition count_sentiment :: "HabitEntry \<Rightarrow> sentiment_day \<Rightarrow> sentiment_day" where
  "count_sentiment e d =
     (let d1 = d\<lparr>total_n := total_n d + 1\<rparr> in
      case sentiment e of
        None \<Rightarrow> d1
      | Some k \<Rightarrow>
          if k = ''positive'' then d1\<lparr>positive := positive d1 + 1\<rparr>
          else if k = ''neutral'' then d1\<lparr>neutral := neutral d1 + 1\<rparr>
          else if k = ''negative'' then d1\<lparr>negative := negative d1 + 1\<rparr>
          else if k = ''total'' then d1\<lparr>total_n := total_n d1 + 1\<rparr>
          else d1)"

definition sentiment_dayData :: "int \<Rightarrow> HabitEntry list \<Rightarrow> (int \<times> sentiment_day) list" where
  "sentiment_dayData tz entries =
     foldl (\<lambda>acc e. modify (local_day tz (date e)) empty_sentiment_day (count_sentiment e) acc)
       [] entries"

definition dominantSentiment :: "sentiment_day \<Rightarrow> string" where
  "dominantSentiment d =
     (if negative d < positive d \<and> neutral d < positive d then ''positive''
      else if neutral d < negative d then ''negative''
      else ''neutral'')"

record sentiment_row =
  sr_date :: int
  sr_counts :: sentiment_day
  sr_dominantSentiment :: string
  sr_positiveRatio :: int
  sr_color :: string

definition sentiment_color :: "string \<Rightarrow> string" where
  "sentiment_color s =
     (if s = ''positive'' then ''#22c55e'' else if s = ''negative'' then ''#ef4444''
      else ''#6b7280'')"

text \<open>
  The \<open>daily\<close> list of \<open>generateSentimentHeatmap\<close>, one row a day in the order the days
  were first met. The weekday and day-of-month labels of a row are left out.
\<close>

definition generateSentimentHeatmap_daily :: "int \<Rightarrow> HabitEntry list \<Rightarrow> sentiment_row list" where
  "generateSentimentHeatmap_daily tz entries =
     map (\<lambda>(day, d).
            \<lparr>sr_date = day, sr_counts = d,
             sr_dominantSentiment = dominantSentiment d,
             sr_positiveRatio = js_round (of_nat (positive d) / of_nat (total_n d) * 100),
             sr_color = sentiment_color (dominantSentiment d)\<rparr>)
         (sentiment_dayData tz entries)"

section \<open>Heat map: the mood view\<close>

text \<open>
  A lookup table written as an object literal answers a key it does not hold from
  \<open>Object.prototype\<close>: for the names below the answer is a function (or the prototype
  itself), not \<open>undefined\<close>. \<open>js_get\<close> tells the three answers apart.
\<close>

datatype 'a js_prop = Own 'a | Inherited | Missing

definition object_prototype_keys :: "string list" where
  "object_prototype_keys =
     [''constructor'', ''__defineGetter__'', ''__defineSetter__'', ''hasOwnProperty'',
      ''__lookupGetter__'', ''__lookupSetter__'', ''isPrototypeOf'', ''propertyIsEnumerable'',
      ''toString'', ''valueOf'', ''__proto__'', ''toLocaleString'']"

definition js_get :: "(string \<times> 'a) list \<Rightarrow> string \<Rightarrow> 'a js_prop" where
  "js_get tbl k =
     (case map_of tbl k of
        Some v \<Rightarrow> Own v
      | None \<Rightarrow> if k \<in> set object_prototype_keys then Inherited else Missing)"

definition moodScores :: "(string \<times> int) list" where
  "moodScores =
     [(''happy'', 5), (''great'', 5), (''amazing'', 5), (''proud'', 5), (''accomplished'', 5),
      (''energized'', 5),
      (''good'', 4), (''motivated'', 4), (''calm'', 4), (''relaxed'', 4),
      (''neutral'', 3), (''indifferent'', 3),
      (''tired'', 2), (''stressed'', 2), (''anxious'', 2), (''bored'', 2),
      (''sad'', 1), (''guilty'', 1), (''ashamed'', 1), (''bad'', 1), (''angry'', 1),
      (''frustrated'', 1)]"

text \<open>
  The per-day accumulator of \<open>generateMoodHeatmap\<close>. The score is a number as long as
  only table scores were added to it; adding an inherited member turns it into a string
  that is no number (\<open>None\<close>), and it stays one. The colour slot of the accumulator is
  never written after its creation and is left out.
\<close>

record mood_day =
  md_score :: "int option"
  md_count :: nat
  md_moods :: "string list"

definition empty_mood_day :: mood_day where
  "empty_mood_day = \<lparr>md_score = Some 0, md_count = 0, md_moods = []\<rparr>"

text \<open>
  \<open>if (entry.mood && moodScores[entry.mood])\<close>: an entry counts when its mood is a
  non-empty string and the table's answer is truthy.
\<close>

definition add_mood :: "HabitEntry \<Rightarrow> mood_day \<Rightarrow> mood_day" where
  "add_mood e d =
     (case mood e of
        None \<Rightarrow> d
      | Some m \<Rightarrow>
          if m = [] then d
          else (case js_get moodScores m of
                  Missing \<Rightarrow> d
                | Own v \<Rightarrow>
                    if v = 0 then d
                    else \<lparr>md_score = map_option (\<lambda>s. s + v) (md_score d),
                          md_count = md_count d + 1, md_moods = md_moods d @ [m]\<rparr>
                | Inherited \<Rightarrow>
                    \<lparr>md_score = None, md_count = md_count d + 1, md_moods = md_moods d @ [m]\<rparr>))"

definition mood_dayData :: "int \<Rightarrow> HabitEntry list \<Rightarrow> (int \<times> mood_day) list" where
  "mood_dayData tz entries =
     foldl (\<lambda>acc e. modify (local_day tz (date e)) empty_mood_day (add_mood e) acc) [] entries"

definition avgScore :: "mood_day \<Rightarrow> rat option" where
  "avgScore d =
     (if 0 < md_count d then map_option (\<lambda>s. of_int s / of_nat (md_count d)) (md_score d)
      else Some 3)"

text \<open>
  The most frequent label: the first element after a stable sort by falling frequency.
\<close>

definition dominantMood :: "string list \<Rightarrow> string" where
  "dominantMood moods =
     (if moods = [] then ''neutral''
      else hd (sort_key (\<lambda>m. - int (count_list moods m)) moods))"

text \<open>
  A row of the heat map, one for a day; a score of \<open>None\<close> is \<open>NaN\<close>. The labels of a row
  (weekday, day of month, month) and its colour are left out.
\<close>

record mood_row =
  mr_date :: int
  mr_score :: "rat option"
  mr_count :: nat
  mr_mood :: string
  mr_intensity :: "int option"

text \<open>The rows as \<open>Object.entries(dayData).map\<close> makes them, in the order the days were first met.\<close>

definition mood_rows :: "int \<Rightarrow> HabitEntry list \<Rightarrow> mood_row list" where
  "mood_rows tz entries =
     map (\<lambda>(day, d).
            \<lparr>mr_date = day, mr_score = map_option round1 (avgScore d), mr_count = md_count d,
             mr_mood = dominantMood (md_moods d),
             mr_intensity = map_option (\<lambda>a. js_round (a / 5 * 100)) (avgScore d)\<rparr>)
         (mood_dayData tz entries)"

text \<open>
  The summary sorts the array of rows in place, first by falling score for \<open>bestDay\<close>, then
  by rising score for \<open>worstDay\<close>, and the \<open>daily\<close> list of the result is that same array:
  it comes out by rising score, rows of equal score in the order the days were first met.
  Both sorts are stable. A score of \<open>NaN\<close> makes the comparison \<open>NaN\<close>, for which the
  language leaves the order open; here such a row is placed as if its score were 0.
\<close>

definition score_key :: "mood_row \<Rightarrow> rat" where
  "score_key r = (case mr_score r of None \<Rightarrow> 0 | Some x \<Rightarrow> x)"

definition by_falling_score :: "mood_row list \<Rightarrow> mood_row list" where
  "by_falling_score rows = sort_key (\<lambda>r. - score_key r) rows"

definition bestDay :: "int \<Rightarrow> HabitEntry list \<Rightarrow> mood_row option" where
  "bestDay tz entries =
     (case by_falling_score (mood_rows tz entries) of [] \<Rightarrow> None | r # rows \<Rightarrow> Some r)"

definition generateMoodHeatmap_daily :: "int \<Rightarrow> HabitEntry list \<Rightarrow> mood_row list" where
  "generateMoodHeatmap_daily tz entries =
     sort_key score_key (by_falling_score (mood_rows tz entries))"

definition worstDay :: "int \<Rightarrow> HabitEntry list \<Rightarrow> mood_row option" where
  "worstDay tz entries =
     (case generateMoodHeatmap_daily tz entries of [] \<Rightarrow> None | r # rows \<Rightarrow> Some r)"

text \<open>
  For stating the properties: the table score of an entry's mood, if the table lists it;
  and \<open>moodScores[m] || 3\<close>, the score the hourly and weekly parts of the same function
  give a label.
\<close>

definition listed_score :: "HabitEntry \<Rightarrow> int option" where
  "listed_score e = (case mood e of None \<Rightarrow> None | Some m \<Rightarrow> map_of moodScores m)"

definition score_or_3 :: "string \<Rightarrow> int" where
  "score_or_3 m = (case map_of moodScores m of Some v \<Rightarrow> v | None \<Rightarrow> 3)"

text \<open>An entry whose mood, if any, is not the name of an inherited member.\<close>

definition plain_mood :: "HabitEntry \<Rightarrow> bool" where
  "plain_mood e = (case mood e of None \<Rightarrow> True | Some m \<Rightarrow> m \<notin> set object_prototype_keys)"

section \<open>Strings, sets and counters\<close>

text \<open>\<open>s.startsWith(p)\<close> and \<open>s.includes(p)\<close>.\<close>

fun starts_with :: "string \<Rightarrow> string \<Rightarrow> bool" where
  "starts_with s [] = True"
| "starts_with [] (p # ps) = False"
| "starts_with (c # cs) (p # ps) = (c = p \<and> starts_with cs ps)"

fun str_includes :: "string \<Rightarrow> string \<Rightarrow> bool" where
  "str_includes [] p = (p = [])"
| "str_includes (c # cs) p = (starts_with (c # cs) p \<or> str_includes cs p)"

text \<open>
  A \<open>Set\<close> keeps its elements in the order they were first added: \<open>set_add\<close> is
  \<open>Set.add\<close>, \<open>uniq\<close> is \<open>[...new Set(xs)]\<close>.
\<close>

definition set_add :: "'a \<Rightarrow> 'a list \<Rightarrow> 'a list" where
  "set_add x xs = (if x \<in> set xs then xs else xs @ [x])"

definition uniq :: "'a list \<Rightarrow> 'a list" where
  "uniq xs = foldl (\<lambda>acc x. set_add x acc) [] xs"

text \<open>
  \<open>obj[k] = (obj[k] || 0) + 1\<close> on a dictionary of counters (for keys that are not
  inherited member names).
\<close>

fun bump :: "string \<Rightarrow> (string \<times> nat) list \<Rightarrow> (string \<times> nat) list" where
  "bump k [] = [(k, 1)]"
| "bump k ((k', n) # kvs) = (if k = k' then (k', n + 1) # kvs else (k', n) # bump k kvs)"

section \<open>Calendar\<close>

text \<open>
  \<open>getDay\<close> is the local weekday, 0 for Sunday (day 0 of the epoch was a Thursday).
  \<open>civil_year_month\<close> is the year and the month (1 to 12) of a day number in the Gregorian
  calendar, as \<open>getFullYear\<close> and \<open>getMonth() + 1\<close> give them for a local day.
\<close>

definition getDay :: "int \<Rightarrow> int \<Rightarrow> int" where
  "getDay tz t = (local_day tz t + 4) mod 7"

definition civil_year_month :: "int \<Rightarrow> int \<times> int" where
  "civil_year_month day =
     (let z = day + 719468;
          era = z div 146097;
          doe = z - era * 146097;
          yoe = (doe - doe div 1460 + doe div 36524 - doe div 146096) div 365;
          doy = doe - (365 * yoe + yoe div 4 - yoe div 100);
          mp = (5 * doy + 2) div 153;
          m = (if mp < 10 then mp + 3 else mp - 9);
          y = yoe + era * 400 + (if m \<le> 2 then 1 else 0)
      in (y, m))"

text \<open>
  \<open>today.setHours(0, 0, 0, 0)\<close> is the instant of local midnight; \<open>checkStr\<close> is the
  date string of the loop's \<open>checkDate\<close>: local midnight \<open>i\<close> days back, printed by
  \<open>toISOString\<close>, that is as a day of Greenwich time.
\<close>

definition local_midnight :: "int \<Rightarrow> int \<Rightarrow> int" where
  "local_midnight tz now = local_day tz now * ms_per_day - tz * 60000"

definition checkStr :: "int \<Rightarrow> int \<Rightarrow> nat \<Rightarrow> int" where
  "checkStr tz now i = utc_day (local_midnight tz now - int i * ms_per_day)"

section \<open>Statistics: trend buckets\<close>

definition moodToScore :: "(string \<times> int) list" where
  "moodToScore =
     [(''happy'', 5), (''great'', 5), (''amazing'', 5), (''energized'', 4), (''good'', 4),
      (''relaxed'', 3), (''neutral'', 3), (''tired'', 2), (''stressed'', 2), (''sad'', 1),
      (''bad'', 1)]"

text \<open>\<open>moodToScore[entry.mood] || 3\<close>; \<open>None\<close> when the answer is no number.\<close>

definition mood_number :: "string \<Rightarrow> int option" where
  "mood_number m =
     (case js_get moodToScore m of
        Own v \<Rightarrow> Some (if v = 0 then 3 else v)
      | Missing \<Rightarrow> Some 3
      | Inherited \<Rightarrow> None)"

text \<open>
  The key of an entry's bucket. A day or a week is keyed by an ISO date, here its day
  number; a month by \<open>YYYY-MM\<close>, here the number \<open>YYYYMM\<close>. Keys compare as their strings
  do (for years of four digits).
\<close>

definition period_key :: "string \<Rightarrow> int \<Rightarrow> int \<Rightarrow> int" where
  "period_key groupBy tz t =
     (if groupBy = ''week'' then utc_day (t - getDay tz t * ms_per_day)
      else if groupBy = ''month''
      then (case civil_year_month (local_day tz t) of (y, m) \<Rightarrow> y * 100 + m)
      else utc_day t)"

text \<open>A bucket; an average of \<open>None\<close> is \<open>NaN\<close>.\<close>

record trend_bucket =
  tb_date :: int
  tb_count :: nat
  tb_totalQuantity :: rat
  tb_activities :: "(string \<times> nat) list"
  tb_avgMood :: "rat option"
  tb_moodCounts :: "(string \<times> nat) list"

definition empty_bucket :: "int \<Rightarrow> trend_bucket" where
  "empty_bucket k =
     \<lparr>tb_date = k, tb_count = 0, tb_totalQuantity = 0, tb_activities = [], tb_avgMood = Some 0,
      tb_moodCounts = []\<rparr>"

text \<open>
  The body of the loop for one entry, once its bucket exists. The running mean is
  \<open>(avgMood * (count - 1) + score) / count\<close>, with \<open>count\<close> the bucket's count of all its
  entries so far.
\<close>

definition add_to_bucket :: "HabitEntry \<Rightarrow> trend_bucket \<Rightarrow> trend_bucket" where
  "add_to_bucket e b =
     (let b1 = b\<lparr>tb_count := tb_count b + 1\<rparr>;
          b2 = (case quantity e of
                  None \<Rightarrow> b1
                | Some q \<Rightarrow> b1\<lparr>tb_totalQuantity := tb_totalQuantity b1 + q\<rparr>);
          b3 = (if activity e = [] then b2
                else b2\<lparr>tb_activities := bump (activity e) (tb_activities b2)\<rparr>)
      in case mood e of
           None \<Rightarrow> b3
         | Some m \<Rightarrow>
             if m = [] then b3
             else b3\<lparr>tb_moodCounts := bump m (tb_moodCounts b3),
                     tb_avgMood :=
                       (case (tb_avgMood b3, mood_number m) of
                          (Some a, Some s) \<Rightarrow>
                            Some ((a * of_nat (tb_count b3 - 1) + of_int s) / of_nat (tb_count b3))
                        | _ \<Rightarrow> None)\<rparr>)"

definition groupEntriesByPeriod :: "int \<Rightarrow> HabitEntry list \<Rightarrow> string \<Rightarrow> trend_bucket list" where
  "groupEntriesByPeriod tz entries groupBy =
     sort_key tb_date
       (map snd
          (foldl (\<lambda>grouped e.
                    modify (period_key groupBy tz (date e))
                      (empty_bucket (period_key groupBy tz (date e))) (add_to_bucket e) grouped)
             [] entries))"

text \<open>For stating the properties: the mean of \<open>moodToScore[m] || 3\<close> over a list of moods.\<close>

definition mean_mood :: "string list \<Rightarrow> rat" where
  "mean_mood ms = of_int (sum_list (map (\<lambda>m. case mood_number m of Some s \<Rightarrow> s | None \<Rightarrow> 0) ms))
     / of_nat (length ms)"

section \<open>Statistics: streaks\<close>

text \<open>
  The distinct dates of the entries, latest first: \<open>[...new Set(...)].sort().reverse()\<close>.
\<close>

definition entry_dates :: "HabitEntry list \<Rightarrow> int list" where
  "entry_dates entries = rev (sort (uniq (map (\<lambda>e. utc_day (date e)) entries)))"

text \<open>
  The loop for the current streak, at index \<open>i\<close> with \<open>k\<close> rounds left: it counts on while
  the date string of \<open>checkDate\<close> is among the dates, and stops at the first one that is
  not.
\<close>

fun current_run :: "int list \<Rightarrow> (nat \<Rightarrow> int) \<Rightarrow> nat \<Rightarrow> nat \<Rightarrow> nat" where
  "current_run dates check i 0 = 0"
| "current_run dates check i (Suc k) =
     (if check i \<in> set dates then Suc (current_run dates check (Suc i) k) else 0)"

text \<open>
  The loop for the longest streak after its first round: \<open>prev\<close> is the date before,
  \<open>temp\<close> the running streak.
\<close>

fun longest_scan :: "int \<Rightarrow> nat \<Rightarrow> nat \<Rightarrow> int list \<Rightarrow> nat" where
  "longest_scan prev temp longest [] = longest"
| "longest_scan prev temp longest (d # ds) =
     (let temp' = (if prev - d = 1 then temp + 1 else 1)
      in longest_scan d temp' (max longest temp') ds)"

definition longest_run :: "int list \<Rightarrow> nat" where
  "longest_run dates = (case dates of [] \<Rightarrow> 0 | d # ds \<Rightarrow> longest_scan d 1 1 ds)"

record streaks =
  st_current :: nat
  st_longest :: nat
  st_totalDays :: nat

text \<open>\<open>calculateStreaks\<close>, for a server in time zone \<open>tz\<close> at the instant \<open>now\<close>.\<close>

definition calculateStreaks :: "int \<Rightarrow> int \<Rightarrow> HabitEntry list \<Rightarrow> streaks" where
  "calculateStreaks tz now entries =
     (let dates = entry_dates entries
      in \<lparr>st_current = current_run dates (checkStr tz now) 0 (length dates),
          st_longest = longest_run dates,
          st_totalDays = length dates\<rparr>)"

section \<open>Gamification: points and badges\<close>

text \<open>A row of the table of goals; its columns \<open>id\<close>, \<open>activity\<close> and \<open>unit\<close> carry a prefix.\<close>

record Goal =
  goal_id :: string
  goal_title :: string
  goal_activity :: string
  targetValue :: rat
  currentValue :: rat
  goal_unit :: "string option"
  period :: string
  isActive :: bool

definition firstOfDay :: int where "firstOfDay = 15"

text \<open>
  \<open>entry.type?.includes(w)\<close>: false for an entry without a type.
\<close>

definition type_includes :: "HabitEntry \<Rightarrow> string \<Rightarrow> bool" where
  "type_includes e w = (case entry_type e of None \<Rightarrow> False | Some t \<Rightarrow> str_includes t w)"











record game_stats =
  totalPoints :: int
  currentStreak :: nat
  longestStreak :: nat
  lastActivityDate :: "int option"
  totalEntries :: nat
  positiveCount :: nat
  negativeCount :: nat
  uniqueActivities :: nat
  categories :: nat
  moodEntries :: nat
  morningEntries :: nat
  eveningEntries :: nat
  goalsCompleted :: nat


text \<open>
  The catalogue of badges. A requirement is an object literal, here its list of keys and
  values; an icon is an emoji, kept as its code points.
\<close>

record badge =
  b_id :: string
  b_name :: string
  b_description :: string
  b_icon :: "int list"
  requirement :: "(string \<times> rat) list"

definition BADGES :: "badge list" where
  "BADGES =
    [\<lparr>b_id = ''first-step'', b_name = ''First Step'', b_description = ''Log your first habit'',
      b_icon = [127919], requirement = [(''entries'', 1)]\<rparr>,
     \<lparr>b_id = ''week-warrior'', b_name = ''Week Warrior'', b_description = ''7-day streak'',
      b_icon = [128293], requirement = [(''streak'', 7)]\<rparr>,
     \<lparr>b_id = ''two-week-champion'', b_name = ''Two Week Champion'',
      b_description = ''14-day streak'', b_icon = [128170], requirement = [(''streak'', 14)]\<rparr>,
     \<lparr>b_id = ''month-master'', b_name = ''Month Master'', b_description = ''30-day streak'',
      b_icon = [128081], requirement = [(''streak'', 30)]\<rparr>,
     \<lparr>b_id = ''hundred-club'', b_name = ''100 Club'', b_description = ''Log 100 habits'',
      b_icon = [128175], requirement = [(''entries'', 100)]\<rparr>,
     \<lparr>b_id = ''goal-crusher'', b_name = ''Goal Crusher'',
      b_description = ''Complete your first goal'', b_icon = [127942],
      requirement = [(''goalsCompleted'', 1)]\<rparr>,
     \<lparr>b_id = ''mood-tracker'', b_name = ''Mood Tracker'',
      b_description = ''Log 10 entries with mood'', b_icon = [128522],
      requirement = [(''moodEntries'', 10)]\<rparr>,
     \<lparr>b_id = ''early-bird'', b_name = ''Early Bird'',
      b_description = ''Log 5 morning habits (before 8am)'', b_icon = [127749],
      requirement = [(''morningEntries'', 5)]\<rparr>,
     \<lparr>b_id = ''night-owl'', b_name = ''Night Owl'',
      b_description = ''Log 5 evening habits (after 9pm)'', b_icon = [129417],
      requirement = [(''eveningEntries'', 5)]\<rparr>,
     \<lparr>b_id = ''variety-king'', b_name = ''Variety King'',
      b_description = ''Log 10 different activities'', b_icon = [127917],
      requirement = [(''uniqueActivities'', 10)]\<rparr>,
     \<lparr>b_id = ''positive-vibes'', b_name = ''Positive Vibes'',
      b_description = ''Log 20 positive habits'', b_icon = [10024],
      requirement = [(''positiveCount'', 20)]\<rparr>,
     \<lparr>b_id = ''insight-seeker'', b_name = ''Insight Seeker'',
      b_description = ''View AI insights 10 times'', b_icon = [128269],
      requirement = [(''insightsViewed'', 10)]\<rparr>,
     \<lparr>b_id = ''streak-saver'', b_name = ''Streak Saver'',
      b_description = ''Log a habit when streak was at risk'', b_icon = [128737, 65039],
      requirement = [(''streakSaved'', 1)]\<rparr>,
     \<lparr>b_id = ''triple-threat'', b_name = ''Triple Threat'',
      b_description = ''Log 3 different categories'', b_icon = [127914],
      requirement = [(''categories'', 3)]\<rparr>,
     \<lparr>b_id = ''iron-will'', b_name = ''Iron Will'',
      b_description = ''Maintain 90% positive habits for a week'', b_icon = [129522],
      requirement = [(''positiveRatio'', 9 / 10), (''days'', 7)]\<rparr>]"

text \<open>
  One test of the pass, \<open>badge.requirement.k && stats.v >= badge.requirement.k\<close>: the
  requirement has the key \<open>k\<close> with a value other than 0, and the statistic reaches it.
\<close>

definition requires :: "badge \<Rightarrow> string \<Rightarrow> nat \<Rightarrow> bool" where
  "requires b k v =
     (case map_of (requirement b) k of None \<Rightarrow> False | Some q \<Rightarrow> q \<noteq> 0 \<and> q \<le> of_nat v)"

definition earned :: "game_stats \<Rightarrow> badge \<Rightarrow> bool" where
  "earned stats b =
     (requires b ''entries'' (totalEntries stats) \<or>
      requires b ''streak'' (currentStreak stats) \<or>
      requires b ''goalsCompleted'' (goalsCompleted stats) \<or>
      requires b ''moodEntries'' (moodEntries stats) \<or>
      requires b ''morningEntries'' (morningEntries stats) \<or>
      requires b ''eveningEntries'' (eveningEntries stats) \<or>
      requires b ''uniqueActivities'' (uniqueActivities stats) \<or>
      requires b ''positiveCount'' (positiveCount stats) \<or>
      requires b ''categories'' (categories stats))"

text \<open>A row of the table of badges, as the pass creates it.\<close>

record badge_row =
  br_name :: string
  br_description :: string
  br_icon :: "int list"
  br_category :: string
  br_requirement :: "(string \<times> rat) list"
  br_userId :: string

definition truthy_key :: "badge \<Rightarrow> string \<Rightarrow> bool" where
  "truthy_key b k = (case map_of (requirement b) k of None \<Rightarrow> False | Some q \<Rightarrow> q \<noteq> 0)"

definition new_badge_row :: "string \<Rightarrow> badge \<Rightarrow> badge_row" where
  "new_badge_row profileId b =
     \<lparr>br_name = b_name b, br_description = b_description b, br_icon = b_icon b,
      br_category =
        (if truthy_key b ''streak'' then ''streak''
         else if truthy_key b ''entries'' then ''consistency''
         else if truthy_key b ''goalsCompleted'' then ''achievement''
         else ''special''),
      br_requirement = requirement b, br_userId = profileId\<rparr>"

text \<open>
  The loop of \<open>checkForNewBadges\<close> over the catalogue: the pair is \<open>newBadges\<close> and
  \<open>allBadges\<close>. The names of the badges held are read once, before the loop.
\<close>

fun badge_pass ::
    "string \<Rightarrow> string list \<Rightarrow> game_stats \<Rightarrow> badge list \<Rightarrow> badge_row list \<times> badge_row list
     \<Rightarrow> badge_row list \<times> badge_row list" where
  "badge_pass profileId held stats [] acc = acc"
| "badge_pass profileId held stats (b # bs) (newBadges, allBadges) =
     (if b_name b \<in> set held then badge_pass profileId held stats bs (newBadges, allBadges)
      else if earned stats b
      then badge_pass profileId held stats bs
             (newBadges @ [new_badge_row profileId b], allBadges @ [new_badge_row profileId b])
      else badge_pass profileId held stats bs (newBadges, allBadges))"

definition checkForNewBadges ::
    "string \<Rightarrow> badge_row list \<Rightarrow> game_stats \<Rightarrow> badge_row list \<times> badge_row list" where
  "checkForNewBadges profileId existingBadges stats =
     badge_pass profileId (map br_name existingBadges) stats BADGES ([], existingBadges)"


section \<open>The classifier: its deterministic path\<close>

text \<open>
  A text is a list of characters with codes below 256. \<open>toLowerCase\<close> maps the capital
  letters A to Z, and those of the upper half of that range, to their small letters.
\<close>

definition lower_char :: "char \<Rightarrow> char" where
  "lower_char c =
     (let n = (of_char c :: nat)
      in if (65 \<le> n \<and> n \<le> 90) \<or> (192 \<le> n \<and> n \<le> 222 \<and> n \<noteq> 215)
         then char_of (n + 32) else c)"

definition toLowerCase :: "string \<Rightarrow> string" where
  "toLowerCase s = map lower_char s"

text \<open>\<open>ps.some(p => s.includes(p))\<close>.\<close>

definition includes_some :: "string \<Rightarrow> string list \<Rightarrow> bool" where
  "includes_some s ps = list_ex (str_includes s) ps"

record behavior_rule =
  r_patterns :: "string list"
  r_activity :: string
  r_type :: string
  r_category :: string
  r_moodHint :: "string option"
  r_sentiment :: string

definition behaviorPatterns :: "behavior_rule list" where
  "behaviorPatterns =
    [\<lparr>r_patterns = [''skip school'', ''skipped school'', ''don't go to school'',
        ''miss school'', ''missed school''],
      r_activity = ''skip school'', r_type = ''negative behavior'',
      r_category = ''education'', r_moodHint = Some ''guilty'', r_sentiment = ''negative''\<rparr>,
     \<lparr>r_patterns = [''skip work'', ''skipped work'', ''miss work'', ''missed work'',
        ''didn't go to work''],
      r_activity = ''skip work'', r_type = ''negative behavior'',
      r_category = ''work'', r_moodHint = Some ''guilty'', r_sentiment = ''negative''\<rparr>,
     \<lparr>r_patterns = [''skip class'', ''skipped class'', ''miss class''],
      r_activity = ''skip class'', r_type = ''negative behavior'',
      r_category = ''education'', r_moodHint = Some ''guilty'', r_sentiment = ''negative''\<rparr>,
     \<lparr>r_patterns = [''procrastinate'', ''procrastinated'', ''putting off'',
        ''avoiding work'', ''didn't do''],
      r_activity = ''procrastinate'', r_type = ''negative behavior'',
      r_category = ''productivity'', r_moodHint = Some ''frustrated'', r_sentiment = ''negative''\<rparr>,
     \<lparr>r_patterns = [''stayed up'', ''stay up'', ''up all night'', ''couldn't sleep'',
        ''insomnia''],
      r_activity = ''sleep late'', r_type = ''negative behavior'',
      r_category = ''sleep'', r_moodHint = Some ''tired'', r_sentiment = ''negative''\<rparr>,
     \<lparr>r_patterns = [''oversleep'', ''overslept'', ''slept in'', ''slept through''],
      r_activity = ''oversleep'', r_type = ''negative behavior'',
      r_category = ''sleep'', r_moodHint = Some ''groggy'', r_sentiment = ''negative''\<rparr>,
     \<lparr>r_patterns = [''doom scroll'', ''doom scrolling'', ''scrolling all night''],
      r_activity = ''doom scroll'', r_type = ''negative behavior'',
      r_category = ''habits'', r_moodHint = Some ''regretful'', r_sentiment = ''negative''\<rparr>,
     \<lparr>r_patterns = [''binge eat'', ''binge eating'', ''overeat'', ''ate too much'',
        ''stuff myself''],
      r_activity = ''binge eat'', r_type = ''negative behavior'',
      r_category = ''nutrition'', r_moodHint = Some ''disgusted'', r_sentiment = ''negative''\<rparr>,
     \<lparr>r_patterns = [''skip meal'', ''skipped meal'', ''didn't eat'', ''forgot to eat''],
      r_activity = ''skip meal'', r_type = ''negative behavior'',
      r_category = ''nutrition'', r_moodHint = Some ''tired'', r_sentiment = ''negative''\<rparr>,
     \<lparr>r_patterns = [''argue'', ''argument'', ''argued with'', ''fight with'',
        ''fought with''],
      r_activity = ''argue'', r_type = ''negative behavior'',
      r_category = ''relationships'', r_moodHint = Some ''angry'', r_sentiment = ''negative''\<rparr>,
     \<lparr>r_patterns = [''ghost'', ''ghosted'', ''ignore'', ''ignored''],
      r_activity = ''ignore someone'', r_type = ''negative behavior'',
      r_category = ''relationships'', r_moodHint = Some ''guilty'', r_sentiment = ''negative''\<rparr>,
     \<lparr>r_patterns = [''yell'', ''yelled'', ''shout'', ''shouted'', ''scream'', ''screamed''],
      r_activity = ''yell'', r_type = ''negative behavior'',
      r_category = ''relationships'', r_moodHint = Some ''angry'', r_sentiment = ''negative''\<rparr>,
     \<lparr>r_patterns = [''smoke'', ''smoked'', ''had a cigarette'', ''vape''],
      r_activity = ''smoke'', r_type = ''negative behavior'',
      r_category = ''health'', r_moodHint = Some ''guilty'', r_sentiment = ''negative''\<rparr>,
     \<lparr>r_patterns = [''drink too much'', ''got drunk'', ''binge drink'', ''hungover''],
      r_activity = ''drink alcohol'', r_type = ''negative behavior'',
      r_category = ''health'', r_moodHint = Some ''regretful'', r_sentiment = ''negative''\<rparr>,
     \<lparr>r_patterns = [''panic attack'', ''anxiety attack'', ''panic''],
      r_activity = ''panic attack'', r_type = ''emotional event'',
      r_category = ''mental health'', r_moodHint = Some ''anxious'', r_sentiment = ''negative''\<rparr>,
     \<lparr>r_patterns = [''cry'', ''cried'', ''crying'', ''breakdown''],
      r_activity = ''cry'', r_type = ''emotional event'',
      r_category = ''mental health'', r_moodHint = Some ''sad'', r_sentiment = ''negative''\<rparr>,
     \<lparr>r_patterns = [''depressed'', ''depression'', ''hopeless''],
      r_activity = ''feel depressed'', r_type = ''emotional event'',
      r_category = ''mental health'', r_moodHint = Some ''sad'', r_sentiment = ''negative''\<rparr>,
     \<lparr>r_patterns = [''mom mad'', ''mom angry'', ''mom yelled'', ''mother angry'',
        ''mastiffs on me'', ''parent angry'', ''parents mad''],
      r_activity = ''family conflict'', r_type = ''negative behavior'',
      r_category = ''family'', r_moodHint = Some ''stressed'', r_sentiment = ''negative''\<rparr>,
     \<lparr>r_patterns = [''dad mad'', ''dad angry'', ''father angry'', ''father mad''],
      r_activity = ''family conflict'', r_type = ''negative behavior'',
      r_category = ''family'', r_moodHint = Some ''stressed'', r_sentiment = ''negative''\<rparr>,
     \<lparr>r_patterns = [''grounded'', ''in trouble'', ''got in trouble''],
      r_activity = ''get in trouble'', r_type = ''emotional event'',
      r_category = ''family'', r_moodHint = Some ''stressed'', r_sentiment = ''negative''\<rparr>,
     \<lparr>r_patterns = [''ran'', ''run'', ''running'', ''jog'', ''jogging''],
      r_activity = ''run'', r_type = ''positive habit'',
      r_category = ''exercise'', r_moodHint = None, r_sentiment = ''positive''\<rparr>,
     \<lparr>r_patterns = [''walk'', ''walking'', ''walked''],
      r_activity = ''walk'', r_type = ''positive habit'',
      r_category = ''exercise'', r_moodHint = None, r_sentiment = ''positive''\<rparr>,
     \<lparr>r_patterns = [''swim'', ''swam'', ''swimming''],
      r_activity = ''swim'', r_type = ''positive habit'',
      r_category = ''exercise'', r_moodHint = None, r_sentiment = ''positive''\<rparr>,
     \<lparr>r_patterns = [''gym'', ''workout'', ''work out'', ''exercised'', ''lift weights''],
      r_activity = ''workout'', r_type = ''positive habit'',
      r_category = ''exercise'', r_moodHint = None, r_sentiment = ''positive''\<rparr>,
     \<lparr>r_patterns = [''yoga'', ''stretching'', ''stretched''],
      r_activity = ''yoga'', r_type = ''positive habit'',
      r_category = ''mindfulness'', r_moodHint = None, r_sentiment = ''positive''\<rparr>,
     \<lparr>r_patterns = [''meditat'', ''mindful'', ''meditation''],
      r_activity = ''meditate'', r_type = ''positive habit'',
      r_category = ''mindfulness'', r_moodHint = None, r_sentiment = ''positive''\<rparr>,
     \<lparr>r_patterns = [''journal'', ''wrote in journal'', ''journaling''],
      r_activity = ''journal'', r_type = ''positive habit'',
      r_category = ''self care'', r_moodHint = None, r_sentiment = ''positive''\<rparr>,
     \<lparr>r_patterns = [''read'', ''reading'', ''studied'', ''study''],
      r_activity = ''read'', r_type = ''positive habit'',
      r_category = ''productivity'', r_moodHint = None, r_sentiment = ''positive''\<rparr>,
     \<lparr>r_patterns = [''finish'', ''finished'', ''completed'', ''complete''],
      r_activity = ''complete task'', r_type = ''positive habit'',
      r_category = ''productivity'', r_moodHint = None, r_sentiment = ''positive''\<rparr>,
     \<lparr>r_patterns = [''clean'', ''cleaned'', ''tidy'', ''organized''],
      r_activity = ''clean'', r_type = ''positive habit'',
      r_category = ''personal growth'', r_moodHint = None, r_sentiment = ''positive''\<rparr>,
     \<lparr>r_patterns = [''sleep'', ''slept'', ''nap'', ''napped''],
      r_activity = ''sleep'', r_type = ''positive habit'',
      r_category = ''sleep'', r_moodHint = None, r_sentiment = ''neutral''\<rparr>,
     \<lparr>r_patterns = [''water'', ''drank water'', ''hydration'', ''hydrated''],
      r_activity = ''drink water'', r_type = ''positive habit'',
      r_category = ''hydration'', r_moodHint = None, r_sentiment = ''positive''\<rparr>,
     \<lparr>r_patterns = [''eat'', ''ate'', ''food'', ''meal'', ''salad'', ''lunch'', ''dinner'',
        ''breakfast''],
      r_activity = ''eat'', r_type = ''positive habit'',
      r_category = ''nutrition'', r_moodHint = None, r_sentiment = ''neutral''\<rparr>]"

text \<open>The first rule of the table with a pattern in the text, if there is one.\<close>

definition first_rule :: "string \<Rightarrow> behavior_rule option" where
  "first_rule lowerText = find (\<lambda>r. includes_some lowerText (r_patterns r)) behaviorPatterns"

definition triggerPatterns :: "(string list \<times> string) list" where
  "triggerPatterns =
    [([''mom'', ''mother'', ''mom angry'', ''mom mad'', ''mastiffs on me''], ''mom upset''),
     ([''dad'', ''father''], ''dad upset''),
     ([''because'', ''cause'', ''since''], ''stated reason''),
     ([''deadline'', ''due''], ''deadline pressure''),
     ([''tired'', ''exhausted'', ''no energy''], ''fatigue''),
     ([''stressed'', ''anxious'', ''worried''], ''stress''),
     ([''bored'', ''boring''], ''boredom'')]"

definition first_trigger :: "string \<Rightarrow> string option" where
  "first_trigger lowerText =
     map_option snd (find (\<lambda>tp. includes_some lowerText (fst tp)) triggerPatterns)"

text \<open>
  The quantity and its unit: the leftmost match of
  \<open>(\d+(?:\.\d+)?)\s*(km|mi|miles|minutes?|...)\<close> in the lower-case text. At a
  position the match, if any, takes all the digits, then a point with all the digits after
  it if at least one follows, then all the white space, then the first alternative of the
  unit that fits, with its optional s when that is the next character; giving back any of
  what was taken leaves a digit, a point or a space where the unit must start, so nothing
  else can match there.
\<close>

definition is_digit :: "char \<Rightarrow> bool" where
  "is_digit c = (48 \<le> (of_char c :: nat) \<and> (of_char c :: nat) \<le> 57)"

definition is_space :: "char \<Rightarrow> bool" where
  "is_space c = ((of_char c :: nat) \<in> set [9, 10, 11, 12, 13, 32, 160])"

text \<open>The alternatives of the unit, in their order; the flag is the optional s.\<close>

definition unit_alternatives :: "(string \<times> bool) list" where
  "unit_alternatives =
     [(''km'', False), (''mi'', False), (''miles'', False), (''minute'', True), (''min'', True),
      (''hour'', True), (''hr'', True), (''page'', True), (''glasse'', True), (''time'', True),
      (''rep'', True), (''set'', True), (''cup'', True), (''day'', True), (''week'', True)]"

fun match_unit :: "(string \<times> bool) list \<Rightarrow> string \<Rightarrow> string option" where
  "match_unit [] s = None"
| "match_unit ((u, opt_s) # alts) s =
     (if starts_with s u
      then Some (if opt_s \<and> starts_with (drop (length u) s) ''s'' then u @ ''s'' else u)
      else match_unit alts s)"

text \<open>
  A match at the start of \<open>s\<close>: the digits before the point, the digits after it, the unit.
\<close>

definition match_here :: "string \<Rightarrow> (string \<times> string \<times> string) option" where
  "match_here s =
     (let ds = takeWhile is_digit s; r1 = dropWhile is_digit s
      in if ds = [] then None
         else (let fs = (case r1 of
                           [] \<Rightarrow> []
                         | c # r \<Rightarrow> if c = CHR ''.'' then takeWhile is_digit r else []);
                   r2 = (if fs = [] then r1 else drop (length fs + 1) r1)
               in map_option (\<lambda>u. (ds, fs, u)) (match_unit unit_alternatives (dropWhile is_space r2))))"

fun quantity_match :: "string \<Rightarrow> (string \<times> string \<times> string) option" where
  "quantity_match [] = None"
| "quantity_match (c # cs) =
     (case match_here (c # cs) of Some m \<Rightarrow> Some m | None \<Rightarrow> quantity_match cs)"

text \<open>\<open>parseFloat\<close> of digits, a point and digits; the value is kept exactly.\<close>

definition digits_value :: "string \<Rightarrow> nat" where
  "digits_value ds = foldl (\<lambda>n c. 10 * n + (of_char c - 48)) 0 ds"

definition parseFloat :: "string \<Rightarrow> string \<Rightarrow> rat" where
  "parseFloat ds fs = of_nat (digits_value ds) + of_nat (digits_value fs) / 10 ^ length fs"

definition canonical_unit :: "string \<Rightarrow> string" where
  "canonical_unit u =
     (let u1 = (if u = ''min'' \<or> u = ''mins'' then ''minutes'' else u);
          u2 = (if u1 = ''hr'' \<or> u1 = ''hrs'' then ''hours'' else u1)
      in if u2 = ''mi'' then ''miles'' else u2)"

definition moodPatterns :: "(string list \<times> string list) list" where
  "moodPatterns =
    [([''happy'', ''great'', ''amazing''],
      [''happy'', ''great'', ''amazing'',
       ''wonderful'', ''fantastic'', ''awesome'', ''excited'', ''joy'']),
     ([''proud'', ''accomplished''],
      [''proud'', ''accomplished'', ''achieved'',
       ''success'', ''finally'', ''finished'']),
     ([''calm'', ''relaxed''],
      [''calm'', ''relaxed'', ''peaceful'', ''serene'', ''chill'',
       ''zen'']),
     ([''energized'', ''motivated''],
      [''energized'', ''energetic'', ''motivated'',
       ''pumped'', ''ready'']),
     ([''guilty'', ''ashamed''],
      [''guilty'', ''ashamed'', ''shouldn't'', ''bad about'',
       ''regret'', ''mastiffs on me'', ''mad at me'', ''angry at me'']),
     ([''stressed'', ''anxious''],
      [''stressed'', ''anxious'', ''worried'',
       ''overwhelmed'', ''nervous'', ''pressure'']),
     ([''sad'', ''depressed''],
      [''sad'', ''depressed'', ''down'', ''hopeless'',
       ''crying'', ''cry'', ''tears'']),
     ([''angry'', ''frustrated''],
      [''angry'', ''frustrated'', ''mad'', ''furious'',
       ''annoyed'', ''irritated'']),
     ([''tired'', ''exhausted''],
      [''tired'', ''exhausted'', ''drained'', ''sleepy'',
       ''fatigue'']),
     ([''disgusted'', ''disappointed''],
      [''disgusting'', ''disgusted'', ''disappointed'',
       ''failure'', ''gross''])]"

text \<open>
  \<open>inferMoodFromText\<close>: the first mood of the first row with a pattern in the text.
\<close>

definition inferMoodFromText :: "string \<Rightarrow> string" where
  "inferMoodFromText text =
     (case find (\<lambda>mp. includes_some (toLowerCase text) (snd mp)) moodPatterns of
        Some mp \<Rightarrow> hd (fst mp)
      | None \<Rightarrow> ''neutral'')"

definition positiveWords :: "string list" where
  "positiveWords =
    [''happy'', ''great'', ''good'', ''amazing'', ''wonderful'', ''proud'',
     ''accomplished'', ''excited'', ''love'', ''enjoy'', ''finally'', ''success'',
     ''achieved'', ''feel good'', ''feels good'']"

definition negativeWords :: "string list" where
  "negativeWords =
    [''bad'', ''sad'', ''angry'', ''mad'', ''stressed'', ''anxious'', ''worried'',
     ''guilty'', ''ashamed'', ''fail'', ''failure'', ''disgusting'', ''hate'', ''terrible'',
     ''awful'', ''horrible'', ''mastiffs on me'', ''conflict'', ''argue'', ''skip'',
     ''procrastinate'', ''panic'', ''cry'']"

definition inferSentimentFromText :: "string \<Rightarrow> string" where
  "inferSentimentFromText text =
     (let lower = toLowerCase text;
          positiveCount = length (filter (str_includes lower) positiveWords);
          negativeCount = length (filter (str_includes lower) negativeWords)
      in if positiveCount < negativeCount then ''negative''
         else if negativeCount < positiveCount then ''positive''
         else ''neutral'')"

text \<open>One check of \<open>extractTags\<close>: the tag, if one of the words is in the text.\<close>

definition tag_if :: "string \<Rightarrow> string list \<Rightarrow> string \<Rightarrow> string list" where
  "tag_if lower ws tag = (if includes_some lower ws then [tag] else [])"

definition extractTags :: "string \<Rightarrow> string list" where
  "extractTags text =
     (let lower = toLowerCase text
      in tag_if lower [''morning''] ''morning'' @
         tag_if lower [''afternoon''] ''afternoon'' @
         tag_if lower [''evening'', ''night''] ''evening'' @
         tag_if lower [''today''] ''today'' @
         tag_if lower [''yesterday''] ''yesterday'' @
         tag_if lower [''weekend''] ''weekend'' @
         tag_if lower [''home''] ''home'' @
         tag_if lower [''school''] ''school'' @
         tag_if lower [''work''] ''work'' @
         tag_if lower [''gym''] ''gym'' @
         tag_if lower [''outdoor'', ''outside''] ''outdoor'' @
         tag_if lower [''alone'', ''by myself''] ''alone'' @
         tag_if lower [''family'', ''mom'', ''dad''] ''family'' @
         tag_if lower [''friend''] ''friends'' @
         tag_if lower [''group''] ''group'' @
         tag_if lower [''recurring'', ''again'', ''still''] ''recurring'' @
         tag_if lower [''first time'', ''finally''] ''milestone'')"

definition inferCategoryFromActivity :: "string \<Rightarrow> string" where
  "inferCategoryFromActivity act =
     (let lower = toLowerCase act
      in if includes_some lower [''run'', ''gym'', ''workout'', ''swim''] then ''exercise''
         else if includes_some lower [''eat'', ''food''] then ''nutrition''
         else if includes_some lower [''sleep'', ''nap''] then ''sleep''
         else if includes_some lower [''meditat'', ''yoga''] then ''mindfulness''
         else if includes_some lower [''read'', ''study''] then ''education''
         else if includes_some lower [''argue'', ''conflict''] then ''relationships''
         else if includes_some lower [''skip'', ''procrastinate''] then ''productivity''
         else if includes_some lower [''school'', ''class''] then ''education''
         else if includes_some lower [''work''] then ''work''
         else if includes_some lower [''cry'', ''panic'', ''anxiety''] then ''mental health''
         else ''habits'')"

text \<open>
  The record the classifier returns. The fields \<open>type\<close>, \<open>trigger\<close> and \<open>context\<close> are
  optional in the interface; a field that is absent or \<open>null\<close> is \<open>None\<close>.
\<close>

record ParsedHabit =
  p_activity :: string
  p_category :: "string option"
  p_quantity :: "rat option"
  p_unit :: "string option"
  p_mood :: "string option"
  p_sentiment :: string
  p_notes :: "string option"
  p_tags :: "string list"
  p_type :: "string option"
  p_trigger :: "string option"
  p_context :: "string option"

text \<open>\<open>x || null\<close> on a string: the empty string is falsy.\<close>

definition or_null :: "string \<Rightarrow> string option" where
  "or_null s = (if s = [] then None else Some s)"

text \<open>\<open>x || y\<close> and \<open>x || null\<close> on a field that may be absent.\<close>

definition or_else :: "string option \<Rightarrow> string \<Rightarrow> string" where
  "or_else x y = (case x of None \<Rightarrow> y | Some s \<Rightarrow> if s = [] then y else s)"

definition truthy :: "string option \<Rightarrow> string option" where
  "truthy x = (case x of None \<Rightarrow> None | Some s \<Rightarrow> or_null s)"

text \<open>
  \<open>enhancedFallbackParse\<close>. The five variables keep their initial values when no rule
  matches; the mood and the sentiment are then inferred from the text, the sentiment also
  when the rule that matched says neutral.
\<close>

definition enhancedFallbackParse :: "string \<Rightarrow> ParsedHabit" where
  "enhancedFallbackParse text =
     (let lowerText = toLowerCase text;
          rule = first_rule lowerText;
          detectedActivity = (case rule of None \<Rightarrow> ''unspecified activity'' | Some r \<Rightarrow> r_activity r);
          detectedType = (case rule of None \<Rightarrow> ''neutral activity'' | Some r \<Rightarrow> r_type r);
          detectedCategory = (case rule of None \<Rightarrow> ''habits'' | Some r \<Rightarrow> r_category r);
          moodHint = (case rule of None \<Rightarrow> None | Some r \<Rightarrow> r_moodHint r);
          ruleSentiment = (case rule of None \<Rightarrow> ''neutral'' | Some r \<Rightarrow> r_sentiment r);
          detectedTrigger = first_trigger lowerText;
          m = quantity_match lowerText;
          detectedMood = (case moodHint of
                            None \<Rightarrow> inferMoodFromText text
                          | Some h \<Rightarrow> if h = [] then inferMoodFromText text else h);
          detectedSentiment = (if ruleSentiment = ''neutral'' then inferSentimentFromText text
                               else ruleSentiment)
      in \<lparr>p_activity = detectedActivity,
          p_category = Some detectedCategory,
          p_quantity = map_option (\<lambda>(ds, fs, u). parseFloat ds fs) m,
          p_unit = map_option (\<lambda>(ds, fs, u). canonical_unit u) m,
          p_mood = or_null detectedMood,
          p_sentiment = detectedSentiment,
          p_notes = map_option (\<lambda>t. ''Trigger: '' @ t) (truthy detectedTrigger),
          p_tags = extractTags text,
          p_type = Some detectedType,
          p_trigger = detectedTrigger,
          p_context = None\<rparr>)"

text \<open>
  What the call of the language model comes to: it throws (creating the client or
  completing), it answers without content, it answers with text in which no JSON object
  is found or parsed, or it answers with an object. Of the object only fields of the
  expected types are kept here.
\<close>

record oracle_json =
  j_activity :: "string option"
  j_category :: "string option"
  j_quantity :: "rat option"
  j_unit :: "string option"
  j_mood :: "string option"
  j_sentiment :: "string option"
  j_notes :: "string option"
  j_tags :: "string list option"
  j_type :: "string option"
  j_trigger :: "string option"
  j_context :: "string option"

datatype oracle_outcome = Throws | NoContent | NoJson | Json oracle_json

text \<open>The defaults \<open>parseHabitText\<close> fills in, for an object or for the fallback's record.\<close>

definition with_defaults :: "string \<Rightarrow> oracle_json \<Rightarrow> ParsedHabit" where
  "with_defaults text parsed =
     \<lparr>p_activity = or_else (j_activity parsed) ''unspecified activity'',
      p_category = Some (or_else (j_category parsed)
                           (inferCategoryFromActivity (or_else (j_activity parsed) text))),
      p_quantity = j_quantity parsed,
      p_unit = truthy (j_unit parsed),
      p_mood = Some (or_else (j_mood parsed) (inferMoodFromText text)),
      p_sentiment = or_else (j_sentiment parsed) (inferSentimentFromText text),
      p_notes = truthy (j_notes parsed),
      p_tags = (case j_tags parsed of Some ts \<Rightarrow> ts | None \<Rightarrow> extractTags text),
      p_type = Some (or_else (j_type parsed) ''neutral activity''),
      p_trigger = truthy (j_trigger parsed),
      p_context = truthy (j_context parsed)\<rparr>"

definition as_json :: "ParsedHabit \<Rightarrow> oracle_json" where
  "as_json p =
     \<lparr>j_activity = Some (p_activity p), j_category = p_category p, j_quantity = p_quantity p,
      j_unit = p_unit p, j_mood = p_mood p, j_sentiment = Some (p_sentiment p),
      j_notes = p_notes p, j_tags = Some (p_tags p), j_type = p_type p,
      j_trigger = p_trigger p, j_context = p_context p\<rparr>"

text \<open>
  \<open>parseHabitText\<close>: a throw and an empty answer end in the outer \<open>catch\<close>, which returns
  the fallback's record; an answer without a JSON object ends in the inner \<open>catch\<close>, which
  hands the fallback's record to the defaults.
\<close>

definition parseHabitText :: "oracle_outcome \<Rightarrow> string \<Rightarrow> ParsedHabit" where
  "parseHabitText outcome text =
     (case outcome of
        Throws \<Rightarrow> enhancedFallbackParse text
      | NoContent \<Rightarrow> enhancedFallbackParse text
      | NoJson \<Rightarrow> with_defaults text (as_json (enhancedFallbackParse text))
      | Json parsed \<Rightarrow> with_defaults text parsed)"

text \<open>The three badges of the catalogue that C10 is about.\<close>

definition unearnable_names :: "string list" where
  "unearnable_names = [''Insight Seeker'', ''Streak Saver'', ''Iron Will'']"

section \<open>Creating an entry and updating the goals\<close>

text \<open>
  The store, as far as this route reads and writes it: the two tables, and the lines
  written by \<open>console.error\<close>.
\<close>

record world =
  w_entries :: "HabitEntry list"
  w_goals :: "Goal list"
  w_log :: "string list"

text \<open>
  Which calls fail in the course of one request: reading the request body, creating the
  entry, finding the goals, and, for the goal with a given id, finding its entries and
  updating it.
\<close>

record faults =
  json_fails :: bool
  create_fails :: bool
  goal_findMany_fails :: bool
  entry_findMany_fails :: "string \<Rightarrow> bool"
  goal_update_fails :: "string \<Rightarrow> bool"

text \<open>
  The body of the request. A field that is absent or \<open>null\<close> is \<open>None\<close>; the quantity is a
  number, the tags are given by the text \<open>JSON.stringify\<close> makes of them, the date by the
  instant it parses to.
\<close>

record post_body =
  b_rawText :: "string option"
  b_activity :: "string option"
  b_type :: "string option"
  b_category :: "string option"
  b_quantity :: "rat option"
  b_unit :: "string option"
  b_mood :: "string option"
  b_sentiment :: "string option"
  b_trigger :: "string option"
  b_notes :: "string option"
  b_tags :: "string option"
  b_date :: "int option"

datatype response = Ok200 HabitEntry | Error400 string | Error500 string

text \<open>\<open>quantity ? parseFloat(quantity) : null\<close>: the number 0 is falsy.\<close>

definition truthy_number :: "rat option \<Rightarrow> rat option" where
  "truthy_number q = (case q of None \<Rightarrow> None | Some x \<Rightarrow> if x = 0 then None else Some x)"

definition new_entry :: "int \<Rightarrow> string \<Rightarrow> string \<Rightarrow> post_body \<Rightarrow> HabitEntry" where
  "new_entry now rt act body =
     \<lparr>rawText = rt, activity = act, entry_type = truthy (b_type body),
      category = truthy (b_category body), quantity = truthy_number (b_quantity body),
      unit = truthy (b_unit body), mood = truthy (b_mood body),
      sentiment = truthy (b_sentiment body), trigger = truthy (b_trigger body),
      entry_notes = truthy (b_notes body), tags = b_tags body,
      date = (case b_date body of None \<Rightarrow> now | Some d \<Rightarrow> d)\<rparr>"

text \<open>
  The first day of the month of a local day, and the window of a goal's period around
  \<open>now\<close>: the local day, the seven days from the same time of day on Sunday, or the
  month from its first midnight to the midnight of its last day. Any other period has no
  window and the goal is passed over.
\<close>

definition day_of_month :: "int \<Rightarrow> int" where
  "day_of_month day =
     (let z = day + 719468;
          era = z div 146097;
          doe = z - era * 146097;
          yoe = (doe - doe div 1460 + doe div 36524 - doe div 146096) div 365;
          doy = doe - (365 * yoe + yoe div 4 - yoe div 100);
          mp = (5 * doy + 2) div 153
      in doy - (153 * mp + 2) div 5 + 1)"

definition month_start :: "int \<Rightarrow> int" where
  "month_start day = day - (day_of_month day - 1)"

definition local_instant :: "int \<Rightarrow> int \<Rightarrow> int" where
  "local_instant tz day = day * ms_per_day - tz * 60000"

definition period_window :: "int \<Rightarrow> int \<Rightarrow> string \<Rightarrow> (int \<times> int) option" where
  "period_window tz now p =
     (if p = ''daily''
      then Some (local_midnight tz now, local_midnight tz now + (ms_per_day - 1))
      else if p = ''weekly''
      then Some (now - getDay tz now * ms_per_day, now - getDay tz now * ms_per_day + 6 * ms_per_day)
      else if p = ''monthly''
      then Some (local_instant tz (month_start (local_day tz now)),
                 local_instant tz (month_start (month_start (local_day tz now) + 31) - 1))
      else None)"

text \<open>
  The filter \<open>{ contains: x, mode: 'insensitive' }\<close> on a column, taken as a test on the
  lower-case strings.
\<close>

definition contains_insensitive :: "string \<Rightarrow> string \<Rightarrow> bool" where
  "contains_insensitive col x = str_includes (toLowerCase col) (toLowerCase x)"

definition totalQuantity :: "HabitEntry list \<Rightarrow> rat" where
  "totalQuantity es = foldl (\<lambda>sum e. sum + (case quantity e of None \<Rightarrow> 0 | Some q \<Rightarrow> q)) 0 es"

definition set_currentValue :: "string \<Rightarrow> rat \<Rightarrow> Goal list \<Rightarrow> Goal list" where
  "set_currentValue gid v gs = map (\<lambda>g. if goal_id g = gid then g\<lparr>currentValue := v\<rparr> else g) gs"

text \<open>
  The loop over the goals found. The result is the store as the loop left it and whether a
  call threw; a throw ends the loop, and what was written before it stays written.
\<close>

fun goal_loop :: "faults \<Rightarrow> int \<Rightarrow> int \<Rightarrow> string \<Rightarrow> Goal list \<Rightarrow> world \<Rightarrow> bool \<times> world" where
  "goal_loop f tz now act [] w = (False, w)"
| "goal_loop f tz now act (g # gs) w =
     (case period_window tz now (period g) of
        None \<Rightarrow> goal_loop f tz now act gs w
      | Some (startDate, endDate) \<Rightarrow>
          if entry_findMany_fails f (goal_id g) then (True, w)
          else (let entries = filter (\<lambda>e. contains_insensitive (activity e) act \<and>
                                            startDate \<le> date e \<and> date e \<le> endDate) (w_entries w)
                in if goal_update_fails f (goal_id g) then (True, w)
                   else goal_loop f tz now act gs
                          (w\<lparr>w_goals := set_currentValue (goal_id g) (totalQuantity entries)
                                           (w_goals w)\<rparr>)))"

text \<open>
  \<open>updateGoalProgress\<close>: the whole body is inside \<open>try\<close>, and the \<open>catch\<close> writes one line
  and returns.
\<close>

definition updateGoalProgress :: "faults \<Rightarrow> int \<Rightarrow> int \<Rightarrow> string \<Rightarrow> rat \<Rightarrow> world \<Rightarrow> world" where
  "updateGoalProgress f tz now act q w =
     (let (threw, w') =
            (if goal_findMany_fails f then (True, w)
             else goal_loop f tz now act
                    (filter (\<lambda>g. contains_insensitive (goal_activity g) act \<and> isActive g) (w_goals w)) w)
      in if threw then w'\<lparr>w_log := w_log w' @ [''Error updating goal progress:'']\<rparr> else w')"

text \<open>
  \<open>POST /api/habits\<close>. A failure of the body or of the creation ends in the route's own
  \<open>catch\<close>, with status 500. The whole request is taken to happen at the instant \<open>now\<close>.
\<close>

definition POST :: "faults \<Rightarrow> int \<Rightarrow> int \<Rightarrow> post_body \<Rightarrow> world \<Rightarrow> response \<times> world" where
  "POST f tz now body w =
     (if json_fails f
      then (Error500 ''Failed to create habit entry'', w\<lparr>w_log := w_log w @ [''Error creating habit:'']\<rparr>)
      else case (truthy (b_rawText body), truthy (b_activity body)) of
             (Some rt, Some act) \<Rightarrow>
               if create_fails f
               then (Error500 ''Failed to create habit entry'',
                     w\<lparr>w_log := w_log w @ [''Error creating habit:'']\<rparr>)
               else (let habit = new_entry now rt act body;
                         w1 = w\<lparr>w_entries := w_entries w @ [habit]\<rparr>;
                         w2 = (case truthy_number (b_quantity body) of
                                 None \<Rightarrow> w1
                               | Some q \<Rightarrow> updateGoalProgress f tz now act q w1)
                     in (Ok200 habit, w2))
           | _ \<Rightarrow> (Error400 ''rawText and activity are required'', w))"

text \<open>
  The goal update of a request throws when finding the goals fails or the loop over them
  ends in a throw.
\<close>

definition goal_update_throws :: "faults \<Rightarrow> int \<Rightarrow> int \<Rightarrow> string \<Rightarrow> world \<Rightarrow> bool" where
  "goal_update_throws f tz now act w =
     (goal_findMany_fails f \<or>
      fst (goal_loop f tz now act
             (filter (\<lambda>g. contains_insensitive (goal_activity g) act \<and> isActive g) (w_goals w)) w))"

text \<open>
  For the examples: a monthly goal on running, a request that logs five kilometres, and a
  store in which every update of a goal fails.
\<close>

definition example_goal :: Goal where
  "example_goal =
     \<lparr>goal_id = ''g1'', goal_title = ''Run'', goal_activity = ''Run'', targetValue = 20,
      currentValue = 0, goal_unit = Some ''km'', period = ''monthly'', isActive = True\<rparr>"

definition example_body :: post_body where
  "example_body =
     \<lparr>b_rawText = Some ''ran 5km'', b_activity = Some ''run'', b_type = Some ''positive habit'',
      b_category = None, b_quantity = Some 5, b_unit = Some ''km'', b_mood = None,
      b_sentiment = None, b_trigger = None, b_notes = None, b_tags = None, b_date = None\<rparr>"

definition failing_updates :: faults where
  "failing_updates =
     \<lparr>json_fails = False, create_fails = False, goal_findMany_fails = False,
      entry_findMany_fails = (\<lambda>gid. False), goal_update_fails = (\<lambda>gid. True)\<rparr>"

section \<open>Habit stacks: the miner of suggestions\<close>

text \<open>
  \<open>Object.entries\<close> lists the keys that are array indices first, by rising number, then
  the other keys in the order they were added. An array index is the decimal text, without
  leading zeros, of a number up to \<open>2^32 - 2\<close>. (Activities named like an inherited member
  of an object are not modelled.)
\<close>

definition is_array_index :: "string \<Rightarrow> bool" where
  "is_array_index s =
     (s \<noteq> [] \<and> list_all is_digit s \<and> (hd s \<noteq> CHR ''0'' \<or> length s = 1) \<and>
      length s \<le> 10 \<and> digits_value s \<le> 4294967294)"

definition js_entries :: "(string \<times> 'v) list \<Rightarrow> (string \<times> 'v) list" where
  "js_entries kvs =
     sort_key (\<lambda>kv. digits_value (fst kv)) (filter (\<lambda>kv. is_array_index (fst kv)) kvs) @
     filter (\<lambda>kv. \<not> is_array_index (fst kv)) kvs"

text \<open>
  The query: the entries of the last thirty days whose type contains positive, by rising
  date.
\<close>

definition positive_entries :: "int \<Rightarrow> HabitEntry list \<Rightarrow> HabitEntry list" where
  "positive_entries now stored =
     sort_key date
       (filter (\<lambda>e. now - 30 * ms_per_day \<le> date e \<and> type_includes e ''positive'') stored)"

definition dayGroups :: "HabitEntry list \<Rightarrow> (int \<times> string list) list" where
  "dayGroups entries =
     foldl (\<lambda>groups e.
              modify (utc_day (date e)) []
                (\<lambda>acts. if activity e = [] then acts else acts @ [activity e]) groups)
       [] entries"

text \<open>The pairs of the two nested loops, \<open>i < j\<close>.\<close>

fun pairs_of :: "'a list \<Rightarrow> ('a \<times> 'a) list" where
  "pairs_of [] = []"
| "pairs_of (x # xs) = map (Pair x) xs @ pairs_of xs"

type_synonym co_table = "(string \<times> (string \<times> nat) list) list"

definition count_pair :: "co_table \<Rightarrow> string \<times> string \<Rightarrow> co_table" where
  "count_pair co p =
     (case p of (a1, a2) \<Rightarrow> modify a2 [] (bump a1) (modify a1 [] (bump a2) co))"

text \<open>One day: the pair is \<open>coOccurrences\<close> and \<open>activityCounts\<close>.\<close>

definition count_day ::
    "co_table \<times> (string \<times> nat) list \<Rightarrow> string list \<Rightarrow> co_table \<times> (string \<times> nat) list" where
  "count_day tables activities =
     (let uniqueActivities = uniq activities
      in (foldl count_pair (fst tables) (pairs_of uniqueActivities),
          foldl (\<lambda>counts a. bump a counts) (snd tables) uniqueActivities))"

record suggestion =
  triggerHabit :: string
  linkedHabit :: string
  strength :: int
  tip :: string

text \<open>\<open>activityCounts[a] || 1\<close>.\<close>

definition count_or_1 :: "(string \<times> nat) list \<Rightarrow> string \<Rightarrow> nat" where
  "count_or_1 counts a = (case map_of counts a of None \<Rightarrow> 1 | Some n \<Rightarrow> if n = 0 then 1 else n)"

definition pair_strength :: "(string \<times> nat) list \<Rightarrow> string \<Rightarrow> string \<Rightarrow> nat \<Rightarrow> rat" where
  "pair_strength counts a b n = of_nat n / of_nat (min (count_or_1 counts a) (count_or_1 counts b))"

definition suggest :: "(string \<times> nat) list \<Rightarrow> string \<Rightarrow> string \<times> nat \<Rightarrow> suggestion list" where
  "suggest counts a kv =
     (case kv of (b, n) \<Rightarrow>
        if 1 / 2 \<le> pair_strength counts a b n \<and> 2 \<le> n
        then [\<lparr>triggerHabit = a, linkedHabit = b,
               strength = js_round (pair_strength counts a b n * 100),
               tip = ''After you '' @ [CHR 0x22] @ a @ [CHR 0x22] @ '', you often do '' @
                     [CHR 0x22] @ b @ [CHR 0x22] @
                     ''. Stack these for better consistency!''\<rparr>]
        else [])"

definition all_suggestions :: "co_table \<times> (string \<times> nat) list \<Rightarrow> suggestion list" where
  "all_suggestions tables =
     concat (map (\<lambda>(a, coActs). concat (map (suggest (snd tables) a) (js_entries coActs)))
               (js_entries (fst tables)))"

text \<open>\<open>[s.triggerHabit, s.linkedHabit].sort().join('-')\<close>.\<close>

definition pairKey :: "suggestion \<Rightarrow> string" where
  "pairKey s =
     (if triggerHabit s \<le> linkedHabit s then triggerHabit s @ ''-'' @ linkedHabit s
      else linkedHabit s @ ''-'' @ triggerHabit s)"

fun unseen_pairs :: "string list \<Rightarrow> suggestion list \<Rightarrow> suggestion list" where
  "unseen_pairs seenPairs [] = []"
| "unseen_pairs seenPairs (s # ss) =
     (if pairKey s \<in> set seenPairs then unseen_pairs seenPairs ss
      else s # unseen_pairs (pairKey s # seenPairs) ss)"

text \<open>
  \<open>generateStackingSuggestions\<close>, at the instant \<open>now\<close> over the stored entries. The sort is
  stable and by falling strength.
\<close>

definition generateStackingSuggestions :: "int \<Rightarrow> HabitEntry list \<Rightarrow> suggestion list" where
  "generateStackingSuggestions now stored =
     (let entries = positive_entries now stored
      in if length entries < 3 then []
         else take 5
                (unseen_pairs []
                   (sort_key (\<lambda>s. - strength s)
                      (all_suggestions (foldl count_day ([], []) (map snd (dayGroups entries)))))))"

text \<open>The two tables the miner has built when it starts to pair the activities.\<close>

definition mined_tables :: "int \<Rightarrow> HabitEntry list \<Rightarrow> co_table \<times> (string \<times> nat) list" where
  "mined_tables now stored =
     foldl count_day ([], []) (map snd (dayGroups (positive_entries now stored)))"

text \<open>For the examples: a positive entry of an activity at an instant.\<close>

definition did :: "string \<Rightarrow> int \<Rightarrow> HabitEntry" where
  "did a t = (blank_entry t)\<lparr>activity := a, entry_type := Some ''positive habit''\<rparr>"


text \<open>
  For the examples: on two days a jog-run and a walk, on two later days a jog and a
  run-walk; the tables the miner builds from them.
\<close>

definition colliding_entries :: "HabitEntry list" where
  "colliding_entries =
     [did ''jog-run'' 86400000, did ''walk'' 86400001,
      did ''jog-run'' 172800000, did ''walk'' 172800001,
      did ''jog'' 259200000, did ''run-walk'' 259200001,
      did ''jog'' 345600000, did ''run-walk'' 345600001]"

definition colliding_tables :: "co_table \<times> (string \<times> nat) list" where
  "colliding_tables =
     foldl count_day ([], []) (map snd (dayGroups (positive_entries 864000000 colliding_entries)))"

text \<open>
  An entry that carries a mood, one that is not the name of an inherited member; and the
  mood it carries.
\<close>

definition mood_bearing :: "HabitEntry \<Rightarrow> bool" where
  "mood_bearing e =
     (case mood e of None \<Rightarrow> False | Some m \<Rightarrow> m \<noteq> [] \<and> m \<notin> set object_prototype_keys)"

definition mood_of :: "HabitEntry \<Rightarrow> string" where
  "mood_of e = (case mood e of None \<Rightarrow> [] | Some m \<Rightarrow> m)"

text \<open>What every row of the table of rules satisfies.\<close>

definition well_formed_rule :: "behavior_rule \<Rightarrow> bool" where
  "well_formed_rule r =
     (r_activity r \<noteq> [] \<and> r_type r \<noteq> [] \<and> r_category r \<noteq> [] \<and> r_moodHint r \<noteq> Some [] \<and>
      r_sentiment r \<in> set [''positive'', ''neutral'', ''negative''])"

section \<open>Properties\<close>

subsection \<open>Dictionaries\<close>

lemma modify_keys: "map fst (modify k d f kvs) = (if k \<in> fst ` set kvs then map fst kvs else map fst kvs @ [k])"
  by (induction kvs) force+

lemma modify_distinct: "distinct (map fst kvs) \<Longrightarrow> distinct (map fst (modify k d f kvs))"
  by (simp add: modify_keys)

lemma map_of_modify:
  "map_of (modify k d f kvs) k' =
     (if k' = k then Some (f (case map_of kvs k of None \<Rightarrow> d | Some v \<Rightarrow> v)) else map_of kvs k')"
  by (induction kvs) auto

text \<open>
  A dictionary filled by one pass over a list holds, under each key, the fold of the steps
  of the elements with that key, over the default.
\<close>

lemma foldl_modify_distinct:
  "distinct (map fst acc) \<Longrightarrow>
   distinct (map fst (foldl (\<lambda>a e. modify (key e) (d (key e)) (step e) a) acc es))"
  by (induction es arbitrary: acc) (simp_all add: modify_distinct)

lemma foldl_modify_map_of:
  "map_of (foldl (\<lambda>a e. modify (key e) (d (key e)) (step e) a) acc es) k =
     (if filter (\<lambda>e. key e = k) es = [] then map_of acc k
      else Some (foldl (\<lambda>b e. step e b) (case map_of acc k of None \<Rightarrow> d k | Some v \<Rightarrow> v)
                   (filter (\<lambda>e. key e = k) es)))"
proof (induction es arbitrary: acc)
  case Nil
  show ?case by simp
next
  case (Cons e es)
  show ?case
    by (cases "key e = k") (simp_all add: Cons.IH map_of_modify)
qed

lemma foldl_modify_row:
  assumes "(k, v) \<in> set (foldl (\<lambda>a e. modify (key e) (d (key e)) (step e) a) [] es)"
  shows "filter (\<lambda>e. key e = k) es \<noteq> [] \<and>
         v = foldl (\<lambda>b e. step e b) (d k) (filter (\<lambda>e. key e = k) es)"
proof -
  let ?r = "foldl (\<lambda>a e. modify (key e) (d (key e)) (step e) a) [] es"
  have "distinct (map fst ?r)"
    by (rule foldl_modify_distinct) simp
  with assms have "map_of ?r k = Some v"
    by simp
  then show ?thesis
    by (simp add: foldl_modify_map_of split: if_splits)
qed

subsection \<open>Levels\<close>

text \<open>
  C1, as the code has it. The table of \<open>getNextLevelProgress\<close> has one threshold more than
  the table of levels, 5000. From 5000 points on the progress is the fixed record with
  progress 100 and needed 100; from 3500 up to 4999 it is measured against 5000, so
  needed is 1500 and progress is the rounded percentage of the points above 3500.
\<close>

theorem next_level_progress_top:
  "(5000 \<le> points \<longrightarrow>
      getNextLevelProgress points = \<lparr>current = points, needed = 100, progress = 100\<rparr>) \<and>
   (3500 \<le> points \<and> points < 5000 \<longrightarrow>
      getNextLevelProgress points =
        \<lparr>current = points - 3500, needed = 1500,
         progress = js_round (of_int (points - 3500) / 1500 * 100)\<rparr>)"
  by (simp add: getNextLevelProgress_def levelThresholds_def)

theorem next_level_progress_top_witness:
  "(5000::int) \<le> 6000 \<and>
   getNextLevelProgress 6000 = \<lparr>current = 6000, needed = 100, progress = 100\<rparr> \<and>
   (3500::int) \<le> 4250 \<and> (4250::int) < 5000 \<and>
   getNextLevelProgress 4250 = \<lparr>current = 750, needed = 1500, progress = 50\<rparr>"
proof -
  have "js_round (of_int (4250 - 3500) / 1500 * 100) = 50"
    by code_simp
  with next_level_progress_top [of 6000] next_level_progress_top [of 4250]
  show ?thesis by simp
qed

text \<open>
  C1 as stated fails at 3501 points: above the top level's threshold, yet needed is 1500
  and progress is 0.
\<close>

theorem next_level_progress_counterexample:
  "(3500::int) < 3501 \<and> calculateLevel 3501 = last levels \<and>
   needed (getNextLevelProgress 3501) = 1500 \<and>
   progress (getNextLevelProgress 3501) = 0"
proof -
  have "js_round (of_int (3501 - 3500) / of_int (5000 - 3500) * 100) = 0"
    by code_simp
  then show ?thesis
    by (simp add: getNextLevelProgress_def levelThresholds_def calculateLevel_def levels_def)
qed

subsection \<open>Sentiment view of the heat map\<close>

lemma count_sentiment_positive:
  "positive (foldl (\<lambda>b e. count_sentiment e b) d es) =
     positive d + length (filter (\<lambda>e. sentiment e = Some ''positive'') es)"
  by (induction es arbitrary: d) (simp_all add: count_sentiment_def Let_def split: option.splits)

lemma count_sentiment_neutral:
  "neutral (foldl (\<lambda>b e. count_sentiment e b) d es) =
     neutral d + length (filter (\<lambda>e. sentiment e = Some ''neutral'') es)"
  by (induction es arbitrary: d) (simp_all add: count_sentiment_def Let_def split: option.splits)

lemma count_sentiment_negative:
  "negative (foldl (\<lambda>b e. count_sentiment e b) d es) =
     negative d + length (filter (\<lambda>e. sentiment e = Some ''negative'') es)"
  by (induction es arbitrary: d) (simp_all add: count_sentiment_def Let_def split: option.splits)

text \<open>
  C2, as the code has it. A row of the daily list stands for a day with at least one
  entry; its three counters are the numbers of that day's entries with each sentiment, and
  the dominant sentiment is positive only when the positives outnumber both the negatives
  and the neutrals strictly, negative otherwise when the negatives outnumber the neutrals
  strictly, and neutral in every other case. So no tie is won by positive, and a tie
  between negative and neutral goes to neutral.
\<close>

theorem sentiment_daily_dominant:
  assumes "r \<in> set (generateSentimentHeatmap_daily tz entries)"
  shows "let es = filter (\<lambda>e. local_day tz (date e) = sr_date r) entries;
             p = length (filter (\<lambda>e. sentiment e = Some ''positive'') es);
             n = length (filter (\<lambda>e. sentiment e = Some ''negative'') es);
             u = length (filter (\<lambda>e. sentiment e = Some ''neutral'') es)
         in es \<noteq> [] \<and> positive (sr_counts r) = p \<and> negative (sr_counts r) = n \<and>
            neutral (sr_counts r) = u \<and>
            sr_dominantSentiment r =
              (if n < p \<and> u < p then ''positive'' else if u < n then ''negative''
               else ''neutral'')"
proof -
  from assms obtain d where row: "(sr_date r, d) \<in> set (sentiment_dayData tz entries)"
    and r: "sr_counts r = d" "sr_dominantSentiment r = dominantSentiment d"
    by (auto simp: generateSentimentHeatmap_daily_def)
  let ?es = "filter (\<lambda>e. local_day tz (date e) = sr_date r) entries"
  from row have ne: "?es \<noteq> []"
    and d: "d = foldl (\<lambda>b e. count_sentiment e b) empty_sentiment_day ?es"
    using foldl_modify_row [of "sr_date r" d "\<lambda>e. local_day tz (date e)" "\<lambda>k. empty_sentiment_day"
        count_sentiment entries]
    by (simp_all add: sentiment_dayData_def)
  have "positive d = length (filter (\<lambda>e. sentiment e = Some ''positive'') ?es)"
    "negative d = length (filter (\<lambda>e. sentiment e = Some ''negative'') ?es)"
    "neutral d = length (filter (\<lambda>e. sentiment e = Some ''neutral'') ?es)"
    by (simp_all add: d count_sentiment_positive count_sentiment_negative
        count_sentiment_neutral empty_sentiment_day_def)
  with ne r show ?thesis
    by (simp add: Let_def dominantSentiment_def)
qed

theorem sentiment_daily_dominant_witness:
  "\<lparr>sr_date = 0, sr_counts = \<lparr>positive = 2, neutral = 1, negative = 2, total_n = 5\<rparr>,
     sr_dominantSentiment = ''negative'', sr_positiveRatio = 40, sr_color = ''#ef4444''\<rparr>
     \<in> set (generateSentimentHeatmap_daily 0
         [(blank_entry 1000)\<lparr>sentiment := Some ''positive''\<rparr>,
          (blank_entry 2000)\<lparr>sentiment := Some ''negative''\<rparr>,
          (blank_entry 3000)\<lparr>sentiment := Some ''neutral''\<rparr>,
          (blank_entry 4000)\<lparr>sentiment := Some ''negative''\<rparr>,
          (blank_entry 5000)\<lparr>sentiment := Some ''positive''\<rparr>]) \<and>
   length (filter (\<lambda>e. sentiment e = Some ''positive'')
       [(blank_entry 1000)\<lparr>sentiment := Some ''positive''\<rparr>,
        (blank_entry 2000)\<lparr>sentiment := Some ''negative''\<rparr>,
        (blank_entry 3000)\<lparr>sentiment := Some ''neutral''\<rparr>,
        (blank_entry 4000)\<lparr>sentiment := Some ''negative''\<rparr>,
        (blank_entry 5000)\<lparr>sentiment := Some ''positive''\<rparr>]) = 2"
proof -
  let ?es = "[(blank_entry 1000)\<lparr>sentiment := Some ''positive''\<rparr>,
          (blank_entry 2000)\<lparr>sentiment := Some ''negative''\<rparr>,
          (blank_entry 3000)\<lparr>sentiment := Some ''neutral''\<rparr>,
          (blank_entry 4000)\<lparr>sentiment := Some ''negative''\<rparr>,
          (blank_entry 5000)\<lparr>sentiment := Some ''positive''\<rparr>]"
  let ?r = "\<lparr>sr_date = 0, sr_counts = \<lparr>positive = 2, neutral = 1, negative = 2, total_n = 5\<rparr>,
     sr_dominantSentiment = ''negative'', sr_positiveRatio = 40, sr_color = ''#ef4444''\<rparr>"
  have mem: "?r \<in> set (generateSentimentHeatmap_daily 0 ?es)"
    by code_simp
  have day: "filter (\<lambda>e. local_day 0 (date e) = sr_date ?r) ?es = ?es"
    by (simp add: local_day_def local_ms_def ms_per_day_def blank_entry_def)
  from sentiment_daily_dominant [OF mem]
  have "positive (sr_counts ?r) = length (filter (\<lambda>e. sentiment e = Some ''positive'') ?es)"
    unfolding day by (simp add: Let_def)
  with mem show ?thesis by simp
qed

text \<open>
  C2 as stated fails on both of its examples. A day with one positive and one negative
  entry and no neutral one is reported negative, not positive; a day with one negative and
  one neutral entry and no positive one is reported neutral, not negative.
\<close>

theorem sentiment_tie_counterexample:
  "generateSentimentHeatmap_daily 0
     [(blank_entry 1000)\<lparr>sentiment := Some ''positive''\<rparr>,
      (blank_entry 2000)\<lparr>sentiment := Some ''negative''\<rparr>] =
   [\<lparr>sr_date = 0, sr_counts = \<lparr>positive = 1, neutral = 0, negative = 1, total_n = 2\<rparr>,
     sr_dominantSentiment = ''negative'', sr_positiveRatio = 50, sr_color = ''#ef4444''\<rparr>] \<and>
   generateSentimentHeatmap_daily 0
     [(blank_entry 1000)\<lparr>sentiment := Some ''negative''\<rparr>,
      (blank_entry 2000)\<lparr>sentiment := Some ''neutral''\<rparr>] =
   [\<lparr>sr_date = 0, sr_counts = \<lparr>positive = 0, neutral = 1, negative = 1, total_n = 2\<rparr>,
     sr_dominantSentiment = ''neutral'', sr_positiveRatio = 0, sr_color = ''#6b7280''\<rparr>]"
  by code_simp

subsection \<open>Mood view of the heat map\<close>

lemma moodScores_range: "map_of moodScores m = Some v \<Longrightarrow> 1 \<le> v \<and> v \<le> 5 \<and> m \<noteq> []"
  by (auto simp: moodScores_def split: if_splits)

lemma add_mood_plain:
  assumes "plain_mood e"
  shows "add_mood e d =
     (case listed_score e of
        None \<Rightarrow> d
      | Some v \<Rightarrow> \<lparr>md_score = map_option (\<lambda>s. s + v) (md_score d), md_count = md_count d + 1,
                   md_moods = md_moods d @ [the (mood e)]\<rparr>)"
proof (cases "mood e")
  case None
  then show ?thesis by (simp add: add_mood_def listed_score_def)
next
  case (Some m)
  show ?thesis
  proof (cases "map_of moodScores m")
    case None
    with Some assms show ?thesis
      by (simp add: add_mood_def listed_score_def js_get_def plain_mood_def)
  next
    case (Some v)
    with moodScores_range [OF Some] \<open>mood e = Some m\<close> show ?thesis
      by (simp add: add_mood_def listed_score_def js_get_def)
  qed
qed

lemma add_mood_fold:
  assumes "list_all plain_mood es"
  shows "foldl (\<lambda>b e. add_mood e b) d es =
     \<lparr>md_score = map_option (\<lambda>s. s + sum_list (List.map_filter listed_score es)) (md_score d),
      md_count = md_count d + length (List.map_filter listed_score es),
      md_moods = md_moods d @ map (\<lambda>e. the (mood e)) (filter (\<lambda>e. listed_score e \<noteq> None) es)\<rparr>"
  using assms
proof (induction es arbitrary: d)
  case Nil
  show ?case by (simp add: List.map_filter_simps option.map_ident)
next
  case (Cons e es)
  then have "plain_mood e" "list_all plain_mood es" by simp_all
  then show ?case
    by (cases "listed_score e")
      (simp_all add: Cons.IH add_mood_plain List.map_filter_simps option.map_comp comp_def
        add.assoc)
qed

lemma round1_three: "round1 3 = 3"
  by code_simp

lemma daily_rows_set: "set (generateMoodHeatmap_daily tz entries) = set (mood_rows tz entries)"
  by (simp add: generateMoodHeatmap_daily_def by_falling_score_def)

lemma daily_rows_distinct: "distinct (map mr_date (generateMoodHeatmap_daily tz entries))"
proof -
  have "map mr_date (mood_rows tz entries) = map fst (mood_dayData tz entries)"
    by (simp add: mood_rows_def case_prod_unfold)
  moreover have "distinct (map fst (mood_dayData tz entries))"
    unfolding mood_dayData_def
    using foldl_modify_distinct [of "[]" "\<lambda>e. local_day tz (date e)" "\<lambda>k. empty_mood_day"
        add_mood entries]
    by simp
  ultimately have rows: "distinct (map mr_date (mood_rows tz entries))"
    by simp
  have "distinct (map mr_date (sort_key g xs)) = distinct (map mr_date xs)"
    for g :: "mood_row \<Rightarrow> rat" and xs
    by (simp add: distinct_map)
  with rows show ?thesis
    by (simp add: generateMoodHeatmap_daily_def by_falling_score_def)
qed

lemma daily_row_exists:
  assumes "e \<in> set entries"
  shows "\<exists>r \<in> set (generateMoodHeatmap_daily tz entries). mr_date r = local_day tz (date e)"
proof -
  let ?k = "local_day tz (date e)"
  from assms have "filter (\<lambda>x. local_day tz (date x) = ?k) entries \<noteq> []"
    by (auto simp: filter_empty_conv)
  then obtain d where "map_of (mood_dayData tz entries) ?k = Some d"
    unfolding mood_dayData_def
    using foldl_modify_map_of [of "\<lambda>x. local_day tz (date x)" "\<lambda>k. empty_mood_day" add_mood
        "[]" entries ?k]
    by auto
  then have "(?k, d) \<in> set (mood_dayData tz entries)"
    by (rule map_of_SomeD)
  then have "\<exists>r \<in> set (mood_rows tz entries). mr_date r = ?k"
    by (force simp: mood_rows_def)
  then show ?thesis
    by (simp add: daily_rows_set)
qed

lemma daily_row_score:
  assumes "r \<in> set (generateMoodHeatmap_daily tz entries)"
    and "list_all plain_mood entries"
  shows "let es = filter (\<lambda>e. local_day tz (date e) = mr_date r) entries;
             scores = List.map_filter listed_score es
         in es \<noteq> [] \<and> mr_count r = length scores \<and>
            mr_score r =
              Some (if scores = [] then 3
                    else round1 (of_int (sum_list scores) / of_nat (length scores)))"
proof -
  from assms(1) obtain d where row: "(mr_date r, d) \<in> set (mood_dayData tz entries)"
    and r: "mr_count r = md_count d" "mr_score r = map_option round1 (avgScore d)"
    by (auto simp: daily_rows_set mood_rows_def)
  let ?es = "filter (\<lambda>e. local_day tz (date e) = mr_date r) entries"
  from row have ne: "?es \<noteq> []"
    and d: "d = foldl (\<lambda>b e. add_mood e b) empty_mood_day ?es"
    using foldl_modify_row [of "mr_date r" d "\<lambda>e. local_day tz (date e)" "\<lambda>k. empty_mood_day"
        add_mood entries]
    by (simp_all add: mood_dayData_def)
  from assms(2) have "list_all plain_mood ?es"
    by (simp add: list_all_iff)
  then have "d = \<lparr>md_score = Some (sum_list (List.map_filter listed_score ?es)),
      md_count = length (List.map_filter listed_score ?es),
      md_moods = map (\<lambda>e. the (mood e)) (filter (\<lambda>e. listed_score e \<noteq> None) ?es)\<rparr>"
    unfolding d by (simp add: add_mood_fold empty_mood_day_def)
  with ne r show ?thesis
    by (simp add: Let_def avgScore_def round1_three)
qed

text \<open>
  C3, as the code has it. The daily list has a row for every day on which there is an
  entry, one row a day, and no other rows. Only the entries whose mood the table lists
  count: the row's count is their number and its score is the mean of their table scores,
  rounded to one decimal; a label the table does not list is left out of the mean, it is
  not scored 3. The score 3 is what a day without any listed mood reports. (Moods named
  like an inherited member of the lookup object are set aside here.)
\<close>

theorem mood_daily_score:
  assumes "list_all plain_mood entries"
  shows "(\<forall>e \<in> set entries.
            \<exists>r \<in> set (generateMoodHeatmap_daily tz entries). mr_date r = local_day tz (date e)) \<and>
         distinct (map mr_date (generateMoodHeatmap_daily tz entries)) \<and>
         (\<forall>r \<in> set (generateMoodHeatmap_daily tz entries).
            let es = filter (\<lambda>e. local_day tz (date e) = mr_date r) entries;
                scores = List.map_filter listed_score es
            in es \<noteq> [] \<and> mr_count r = length scores \<and>
               mr_score r =
                 Some (if scores = [] then 3
                       else round1 (of_int (sum_list scores) / of_nat (length scores))))"
  using assms daily_row_exists [of _ entries tz] daily_rows_distinct [of tz entries]
    daily_row_score [of _ tz entries]
  by blast

theorem mood_daily_score_witness:
  "list_all plain_mood
     [(blank_entry 1000)\<lparr>mood := Some ''happy''\<rparr>,
      (blank_entry 2000)\<lparr>mood := Some ''excited''\<rparr>,
      (blank_entry 3000)\<lparr>mood := Some ''good''\<rparr>,
      (blank_entry 86401000)\<lparr>mood := Some ''excited''\<rparr>] \<and>
   generateMoodHeatmap_daily 0
     [(blank_entry 1000)\<lparr>mood := Some ''happy''\<rparr>,
      (blank_entry 2000)\<lparr>mood := Some ''excited''\<rparr>,
      (blank_entry 3000)\<lparr>mood := Some ''good''\<rparr>,
      (blank_entry 86401000)\<lparr>mood := Some ''excited''\<rparr>] =
     [\<lparr>mr_date = 1, mr_score = Some 3, mr_count = 0, mr_mood = ''neutral'',
       mr_intensity = Some 60\<rparr>,
      \<lparr>mr_date = 0, mr_score = Some (9 / 2), mr_count = 2, mr_mood = ''happy'',
       mr_intensity = Some 90\<rparr>] \<and>
   distinct (map mr_date (generateMoodHeatmap_daily 0
     [(blank_entry 1000)\<lparr>mood := Some ''happy''\<rparr>,
      (blank_entry 2000)\<lparr>mood := Some ''excited''\<rparr>,
      (blank_entry 3000)\<lparr>mood := Some ''good''\<rparr>,
      (blank_entry 86401000)\<lparr>mood := Some ''excited''\<rparr>])) \<and>
   List.map_filter listed_score
     [(blank_entry 1000)\<lparr>mood := Some ''happy''\<rparr>,
      (blank_entry 2000)\<lparr>mood := Some ''excited''\<rparr>,
      (blank_entry 3000)\<lparr>mood := Some ''good''\<rparr>] = [5, 4] \<and>
   Some (9 / 2) =
     Some (if [5, 4 :: int] = [] then 3
           else round1 (of_int (sum_list [5, 4]) / of_nat (length [5, 4 :: int])))"
proof -
  let ?es = "[(blank_entry 1000)\<lparr>mood := Some ''happy''\<rparr>,
          (blank_entry 2000)\<lparr>mood := Some ''excited''\<rparr>,
          (blank_entry 3000)\<lparr>mood := Some ''good''\<rparr>,
          (blank_entry 86401000)\<lparr>mood := Some ''excited''\<rparr>]"
  let ?day0 = "[(blank_entry 1000)\<lparr>mood := Some ''happy''\<rparr>,
          (blank_entry 2000)\<lparr>mood := Some ''excited''\<rparr>,
          (blank_entry 3000)\<lparr>mood := Some ''good''\<rparr>]"
  let ?r = "\<lparr>mr_date = 0, mr_score = Some (9 / 2), mr_count = 2, mr_mood = ''happy'',
     mr_intensity = Some 90\<rparr>"
  have plain: "list_all plain_mood ?es"
    by code_simp
  have rows: "generateMoodHeatmap_daily 0 ?es =
     [\<lparr>mr_date = 1, mr_score = Some 3, mr_count = 0, mr_mood = ''neutral'',
       mr_intensity = Some 60\<rparr>, ?r]"
    by code_simp
  have mem: "?r \<in> set (generateMoodHeatmap_daily 0 ?es)"
    unfolding rows by simp
  have day: "filter (\<lambda>e. local_day 0 (date e) = mr_date ?r) ?es = ?day0"
    by (simp add: local_day_def local_ms_def ms_per_day_def blank_entry_def)
  have scores: "List.map_filter listed_score ?day0 = [5, 4]"
    by code_simp
  have sel: "mr_score ?r = Some (9 / 2)"
    by simp
  note all = mood_daily_score [OF plain, of 0]
  from all have distinct: "distinct (map mr_date (generateMoodHeatmap_daily 0 ?es))"
    by blast
  from all mem have "let es = filter (\<lambda>e. local_day 0 (date e) = mr_date ?r) ?es;
                scores = List.map_filter listed_score es
            in es \<noteq> [] \<and> mr_count ?r = length scores \<and>
               mr_score ?r =
                 Some (if scores = [] then 3
                       else round1 (of_int (sum_list scores) / of_nat (length scores)))"
    by blast
  then have "Some (9 / 2) =
     Some (if [5, 4 :: int] = [] then 3
           else round1 (of_int (sum_list [5, 4]) / of_nat (length [5, 4 :: int])))"
    unfolding Let_def day scores sel by blast
  with plain rows distinct scores show ?thesis
    by blast
qed

text \<open>
  C3 as stated fails on a day with the moods happy and excited. The table does not list
  excited, so the claim's mean is the mean of 5 and the default 3, that is 4; the row
  reports 5 over a count of 1.
\<close>

theorem mood_daily_score_counterexample:
  "generateMoodHeatmap_daily 0
     [(blank_entry 1000)\<lparr>mood := Some ''happy''\<rparr>,
      (blank_entry 2000)\<lparr>mood := Some ''excited''\<rparr>] =
   [\<lparr>mr_date = 0, mr_score = Some 5, mr_count = 1, mr_mood = ''happy'',
     mr_intensity = Some 100\<rparr>] \<and>
   round1 (of_int (score_or_3 ''happy'' + score_or_3 ''excited'') / 2) = 4"
  by code_simp

subsection \<open>Trend buckets\<close>

lemma mood_number_plain: "m \<notin> set object_prototype_keys \<Longrightarrow> \<exists>s. mood_number m = Some s"
  by (simp add: mood_number_def js_get_def split: option.splits)

lemma add_to_bucket_count: "tb_count (add_to_bucket e b) = tb_count b + 1"
  by (simp add: add_to_bucket_def Let_def split: option.splits)

lemma add_to_bucket_avg:
  assumes "mood_bearing e" and "tb_avgMood b = Some a"
  shows "tb_avgMood (add_to_bucket e b) =
     Some ((a * of_nat (tb_count b) + of_int (case mood_number (mood_of e) of Some s \<Rightarrow> s | None \<Rightarrow> 0))
           / of_nat (tb_count b + 1))"
proof -
  from assms(1) obtain m where m: "mood e = Some m" "m \<noteq> []" "m \<notin> set object_prototype_keys"
    by (auto simp: mood_bearing_def split: option.splits)
  from mood_number_plain [OF m(3)] obtain s where "mood_number m = Some s" by blast
  with m assms(2) show ?thesis
    by (simp add: add_to_bucket_def Let_def mood_of_def split: option.splits)
qed

lemma bucket_running_mean:
  assumes "list_all mood_bearing es"
  shows "tb_count (foldl (\<lambda>b e. add_to_bucket e b) (empty_bucket k) es) = length es \<and>
         tb_avgMood (foldl (\<lambda>b e. add_to_bucket e b) (empty_bucket k) es) =
           Some (if es = [] then 0 else mean_mood (map mood_of es))"
  using assms
proof (induction es rule: rev_induct)
  case Nil
  show ?case by (simp add: empty_bucket_def)
next
  case (snoc e es)
  let ?b = "foldl (\<lambda>b e. add_to_bucket e b) (empty_bucket k) es"
  from snoc have e: "mood_bearing e" and cnt: "tb_count ?b = length es"
    and avg: "tb_avgMood ?b = Some (if es = [] then 0 else mean_mood (map mood_of es))"
    by simp_all
  have "tb_avgMood (add_to_bucket e ?b) = Some (mean_mood (map mood_of (es @ [e])))"
    unfolding add_to_bucket_avg [OF e avg] cnt
    by (cases "es = []") (simp_all add: mean_mood_def add_divide_distrib)
  then show ?case
    by (simp add: add_to_bucket_count cnt)
qed

text \<open>
  Where every entry of a bucket carries a mood, the running mean is the mean of the scores.
\<close>

lemma trend_avgMood_when_all_carry_a_mood:
  assumes "b \<in> set (groupEntriesByPeriod tz entries groupBy)"
    and "list_all mood_bearing (filter (\<lambda>e. period_key groupBy tz (date e) = tb_date b) entries)"
  shows "tb_avgMood b =
           Some (mean_mood (map mood_of
                   (filter (\<lambda>e. period_key groupBy tz (date e) = tb_date b) entries)))"
proof -
  let ?key = "\<lambda>e. period_key groupBy tz (date e)"
  from assms(1) obtain k where row:
    "(k, b) \<in> set (foldl (\<lambda>grouped e. modify (?key e) (empty_bucket (?key e)) (add_to_bucket e) grouped)
        [] entries)"
    by (auto simp: groupEntriesByPeriod_def)
  from foldl_modify_row [of k b ?key empty_bucket add_to_bucket entries, OF row]
  have ne: "filter (\<lambda>e. ?key e = k) entries \<noteq> []"
    and b: "b = foldl (\<lambda>b e. add_to_bucket e b) (empty_bucket k) (filter (\<lambda>e. ?key e = k) entries)"
    by simp_all
  have date: "tb_date (foldl (\<lambda>b e. add_to_bucket e b) c es) = tb_date c" for c es
    by (induction es arbitrary: c) (simp_all add: add_to_bucket_def Let_def split: option.splits)
  have k: "tb_date b = k"
    unfolding b by (simp add: date empty_bucket_def)
  with assms(2) ne bucket_running_mean [of "filter (\<lambda>e. ?key e = k) entries" k] b
  show ?thesis by simp
qed

text \<open>
  C4 does not hold of the code. The running mean divides by the bucket's count of all
  entries, with or without a mood. A day whose first entry has no mood and whose second
  has the mood happy gets the average 5/2, while the mean over its mood-bearing entries
  is 5.
\<close>

theorem trend_avgMood_after_moodless_entry:
  "groupEntriesByPeriod 0 [blank_entry 1000, (blank_entry 2000)\<lparr>mood := Some ''happy''\<rparr>] ''day'' =
     [\<lparr>tb_date = 0, tb_count = 2, tb_totalQuantity = 0, tb_activities = [(''-'', 2)],
       tb_avgMood = Some (5 / 2), tb_moodCounts = [(''happy'', 1)]\<rparr>] \<and>
   mean_mood [''happy''] = 5"
  by code_simp

subsection \<open>Streaks\<close>

lemma set_add_set: "set (set_add x xs) = insert x (set xs)"
  by (auto simp: set_add_def)

lemma set_add_distinct: "distinct xs \<Longrightarrow> distinct (set_add x xs)"
  by (simp add: set_add_def)

lemma foldl_set_add:
  "set (foldl (\<lambda>acc x. set_add x acc) acc xs) = set acc \<union> set xs \<and>
   (distinct acc \<longrightarrow> distinct (foldl (\<lambda>acc x. set_add x acc) acc xs))"
  by (induction xs arbitrary: acc) (auto simp: set_add_set set_add_distinct)

lemma uniq_set: "set (uniq xs) = set xs" and uniq_distinct: "distinct (uniq xs)"
  using foldl_set_add [of "[]" xs] by (simp_all add: uniq_def)

lemma entry_dates_set: "set (entry_dates entries) = (\<lambda>e. utc_day (date e)) ` set entries"
  by (simp add: entry_dates_def uniq_set)

lemma entry_dates_distinct: "distinct (entry_dates entries)"
  by (simp add: entry_dates_def uniq_distinct)

lemma utc_day_back: "utc_day (a - int i * ms_per_day) = utc_day a - int i"
proof -
  have "a - int i * ms_per_day = a + (- int i) * ms_per_day" by simp
  then show ?thesis
    unfolding utc_day_def by (simp add: ms_per_day_def)
qed

lemma checkStr_days: "checkStr tz now i = checkStr tz now 0 - int i"
  by (simp add: checkStr_def utc_day_back)

lemma checkStr_utc: "checkStr 0 now 0 = utc_day now"
  by (simp add: checkStr_def local_midnight_def local_day_def local_ms_def utc_day_def
      ms_per_day_def)

lemma current_run_le: "current_run dates check i k \<le> k"
  by (induction k arbitrary: i) simp_all

lemma current_run_present:
  "j < current_run dates check i k \<Longrightarrow> check (i + j) \<in> set dates"
proof (induction k arbitrary: i j)
  case 0
  then show ?case by simp
next
  case (Suc k)
  show ?case
  proof (cases j)
    case 0
    with Suc.prems show ?thesis by (simp split: if_splits)
  next
    case (Suc j')
    with Suc.prems have "check i \<in> set dates" and "j' < current_run dates check (Suc i) k"
      by (simp_all split: if_splits)
    from Suc.IH [OF this(2)] Suc show ?thesis by simp
  qed
qed

lemma current_run_stops:
  "current_run dates check i k < k \<Longrightarrow> check (i + current_run dates check i k) \<notin> set dates"
proof (induction k arbitrary: i)
  case 0
  then show ?case by simp
next
  case (Suc k)
  show ?case
  proof (cases "check i \<in> set dates")
    case True
    with Suc.prems have "current_run dates check (Suc i) k < k" by simp
    from Suc.IH [OF this] True show ?thesis by simp
  next
    case False
    then show ?thesis by simp
  qed
qed

lemma current_run_maximal:
  assumes "distinct dates" and "\<And>i. check i = c - int i"
  shows "check (current_run dates check 0 (length dates)) \<notin> set dates"
proof (cases "current_run dates check 0 (length dates) < length dates")
  case True
  from current_run_stops [OF this] show ?thesis by simp
next
  case False
  with current_run_le [of dates check 0 "length dates"]
  have full: "current_run dates check 0 (length dates) = length dates" by simp
  let ?n = "length dates"
  have sub: "check ` {..<?n} \<subseteq> set dates"
    using current_run_present [of _ dates check 0 ?n] full by auto
  have "inj_on check {..<?n}"
    by (rule inj_onI) (simp add: assms(2))
  then have "card (check ` {..<?n}) = ?n"
    by (simp add: card_image)
  moreover have "card (set dates) = ?n"
    using assms(1) by (simp add: distinct_card)
  ultimately have "check ` {..<?n} = set dates"
    using sub by (simp add: card_subset_eq)
  moreover have "check ?n \<notin> check ` {..<?n}"
    by (auto simp: assms(2))
  ultimately show ?thesis
    using full by simp
qed

text \<open>
  The current streak is the longest run of days present that ends at the first day the
  loop checks: every one of that many days back from it has an entry, and the next one has
  none. The first day checked is the Greenwich day of the local midnight; on a server on
  Greenwich time it is today.
\<close>

lemma current_streak_checked_days:
  "(\<forall>i < st_current (calculateStreaks tz now entries).
       checkStr tz now 0 - int i \<in> (\<lambda>e. utc_day (date e)) ` set entries) \<and>
   checkStr tz now 0 - int (st_current (calculateStreaks tz now entries))
     \<notin> (\<lambda>e. utc_day (date e)) ` set entries"
proof -
  let ?dates = "entry_dates entries"
  let ?k = "current_run ?dates (checkStr tz now) 0 (length ?dates)"
  have k: "st_current (calculateStreaks tz now entries) = ?k"
    by (simp add: calculateStreaks_def Let_def)
  have "checkStr tz now i \<in> set ?dates" if "i < ?k" for i
    using current_run_present [OF that] by simp
  moreover have "checkStr tz now ?k \<notin> set ?dates"
    by (rule current_run_maximal [OF entry_dates_distinct, of _ "checkStr tz now 0"])
      (rule checkStr_days)
  ultimately show ?thesis
    unfolding k entry_dates_set [symmetric] using checkStr_days [of tz now] by metis
qed

lemma current_streak_on_greenwich_time:
  "(\<forall>i < st_current (calculateStreaks 0 now entries).
       utc_day now - int i \<in> (\<lambda>e. utc_day (date e)) ` set entries) \<and>
   utc_day now - int (st_current (calculateStreaks 0 now entries))
     \<notin> (\<lambda>e. utc_day (date e)) ` set entries"
  using current_streak_checked_days [of 0 now entries] by (simp add: checkStr_utc)

text \<open>
  C7 does not hold of the code on a server east of Greenwich. The date of an entry is its
  day in Greenwich time, while the days the loop checks are the Greenwich days of local
  midnights, which there fall on the day before. One hour east, at local noon of day 100,
  with one entry at ten in the morning of that day and one at ten of the day before, the
  current streak is 1, not 2: the entry of today is never looked at. On a server on
  Greenwich time the same entries give 2.
\<close>

theorem current_streak_east_of_greenwich:
  "calculateStreaks 60 (100 * 86400000 + 11 * 3600000)
     [blank_entry (100 * 86400000 + 9 * 3600000), blank_entry (99 * 86400000 + 9 * 3600000)] =
     \<lparr>st_current = 1, st_longest = 2, st_totalDays = 2\<rparr> \<and>
   local_day 60 (100 * 86400000 + 11 * 3600000) = 100 \<and>
   local_day 60 (100 * 86400000 + 9 * 3600000) = 100 \<and>
   local_day 60 (99 * 86400000 + 9 * 3600000) = 99 \<and>
   calculateStreaks 0 (100 * 86400000 + 11 * 3600000)
     [blank_entry (100 * 86400000 + 9 * 3600000), blank_entry (99 * 86400000 + 9 * 3600000)] =
     \<lparr>st_current = 2, st_longest = 2, st_totalDays = 2\<rparr>"
  by code_simp

subsection \<open>Points\<close>

text \<open>
  The type of an entry is tested by \<open>includes\<close>, first for positive, then for negative.
  For the four values a type takes in the data model, and for an entry without a type, the
  three branches are the positive habits, the negative behaviours and all the rest.
\<close>

lemma type_values:
  "entry_type e = Some ''positive habit'' \<Longrightarrow> type_includes e ''positive''"
  "entry_type e = Some ''negative behavior'' \<Longrightarrow>
     \<not> type_includes e ''positive'' \<and> type_includes e ''negative''"
  "entry_type e = Some ''neutral activity'' \<or> entry_type e = Some ''emotional event'' \<or>
   entry_type e = None \<Longrightarrow> \<not> type_includes e ''positive'' \<and> \<not> type_includes e ''negative''"
  by (auto simp: type_includes_def)











subsection \<open>Badges\<close>

lemma badge_pass_new:
  "fst (badge_pass p held stats bs (n, a)) =
     n @ map (new_badge_row p) (filter (\<lambda>b. b_name b \<notin> set held \<and> earned stats b) bs)"
  by (induction bs arbitrary: n a) simp_all

lemma badge_pass_all:
  "snd (badge_pass p held stats bs (n, a)) =
     a @ map (new_badge_row p) (filter (\<lambda>b. b_name b \<notin> set held \<and> earned stats b) bs)"
  by (induction bs arbitrary: n a) simp_all

lemma new_badge_names:
  "map br_name (fst (checkForNewBadges profileId existingBadges stats)) =
     map b_name (filter (\<lambda>b. b_name b \<notin> br_name ` set existingBadges \<and> earned stats b) BADGES)"
  by (simp add: checkForNewBadges_def badge_pass_new new_badge_row_def comp_def)

lemma unearnable_never_earned:
  "list_all (\<lambda>b. b_name b \<in> set unearnable_names \<longrightarrow> \<not> earned stats b) BADGES"
  by (simp add: BADGES_def unearnable_names_def earned_def requires_def)

lemma never_earned:
  assumes "b \<in> set BADGES" and "earned stats b"
  shows "b_name b \<notin> set unearnable_names"
  using assms unearnable_never_earned [of stats] by (auto simp: list_all_iff)

text \<open>
  C10. Whatever the statistics and whatever badges the profile holds, the pass creates no
  badge named Insight Seeker, Streak Saver or Iron Will: none of the nine tests of the
  pass reads a key of their requirements.
\<close>

theorem unearnable_badges:
  "''Insight Seeker'' \<notin> set (map br_name (fst (checkForNewBadges profileId existingBadges stats))) \<and>
   ''Streak Saver'' \<notin> set (map br_name (fst (checkForNewBadges profileId existingBadges stats))) \<and>
   ''Iron Will'' \<notin> set (map br_name (fst (checkForNewBadges profileId existingBadges stats)))"
proof -
  have "n \<notin> set unearnable_names"
    if "n \<in> set (map br_name (fst (checkForNewBadges profileId existingBadges stats)))" for n
  proof -
    from that obtain b where "b \<in> set BADGES" "earned stats b" "n = b_name b"
      unfolding new_badge_names by auto
    then show ?thesis
      using never_earned [of b stats] by simp
  qed
  then show ?thesis
    unfolding unearnable_names_def by auto
qed

subsection \<open>The classifier\<close>

lemma find_SomeD: "find P xs = Some x \<Longrightarrow> x \<in> set xs \<and> P x"
  by (induction xs) (auto split: if_splits)

lemma behaviorPatterns_well_formed: "list_all well_formed_rule behaviorPatterns"
  by (simp add: behaviorPatterns_def well_formed_rule_def)

lemma first_rule_well_formed: "first_rule s = Some r \<Longrightarrow> well_formed_rule r"
  using behaviorPatterns_well_formed
  by (auto simp: first_rule_def list_all_iff dest: find_SomeD)

lemma first_rule_None:
  "first_rule s = None \<longleftrightarrow> \<not> list_ex (\<lambda>r. includes_some s (r_patterns r)) behaviorPatterns"
  by (auto simp: first_rule_def find_None_iff list_ex_iff)

lemma inferSentiment_values:
  "inferSentimentFromText text \<in> set [''positive'', ''neutral'', ''negative'']"
  by (simp add: inferSentimentFromText_def Let_def)

lemma inferMood_nonempty: "inferMoodFromText text \<noteq> []"
proof -
  have "list_all (\<lambda>mp. hd (fst mp) \<noteq> []) moodPatterns"
    by (simp add: moodPatterns_def)
  then show ?thesis
    by (auto simp: inferMoodFromText_def list_all_iff split: option.splits dest!: find_SomeD)
qed

lemma triggers_nonempty: "first_trigger s = Some t \<Longrightarrow> t \<noteq> []"
proof -
  have "list_all (\<lambda>tp. snd tp \<noteq> []) triggerPatterns"
    by (simp add: triggerPatterns_def)
  then show "first_trigger s = Some t \<Longrightarrow> t \<noteq> []"
    by (auto simp: first_trigger_def list_all_iff dest!: find_SomeD)
qed

lemma match_unit_nonempty: "list_all (\<lambda>a. fst a \<noteq> []) alts \<Longrightarrow> match_unit alts s = Some u \<Longrightarrow> u \<noteq> []"
  by (induction alts s rule: match_unit.induct) (auto split: if_splits)

lemma canonical_unit_nonempty: "u \<noteq> [] \<Longrightarrow> canonical_unit u \<noteq> []"
  by (auto simp: canonical_unit_def Let_def)

lemma quantity_match_unit: "quantity_match s = Some (ds, fs, u) \<Longrightarrow> u \<noteq> []"
proof (induction s)
  case Nil
  then show ?case by simp
next
  case (Cons c cs)
  have alts: "list_all (\<lambda>a. fst a \<noteq> []) unit_alternatives"
    by (simp add: unit_alternatives_def)
  show ?case
  proof (cases "match_here (c # cs)")
    case None
    with Cons show ?thesis by simp
  next
    case (Some m)
    with Cons.prems have "match_here (c # cs) = Some (ds, fs, u)" by simp
    then show ?thesis
      using match_unit_nonempty [OF alts]
      by (auto simp: match_here_def Let_def split: if_splits)
  qed
qed

text \<open>
  C8. \<open>enhancedFallbackParse\<close> is a total function of the text: it is built from
  \<open>toLowerCase\<close>, \<open>includes\<close>, one regular-expression match and table lookups, none of
  which throws on a string. Its record has a non-empty activity, a type and a sentiment,
  the sentiment being one of the three names. When no rule has a pattern in the text, the
  activity is unspecified activity, the type neutral activity, the category habits, and
  the sentiment is what \<open>inferSentimentFromText\<close> says of the text. The classifier returns
  this very record whenever the language model throws, answers nothing, or answers
  without a JSON object.
\<close>

theorem fallback_parse_total:
  "(let r = enhancedFallbackParse text
    in p_activity r \<noteq> [] \<and> p_type r \<noteq> None \<and> p_type r \<noteq> Some [] \<and>
       p_sentiment r \<in> set [''positive'', ''neutral'', ''negative''] \<and>
       (\<not> list_ex (\<lambda>rule. includes_some (toLowerCase text) (r_patterns rule)) behaviorPatterns \<longrightarrow>
          p_activity r = ''unspecified activity'' \<and> p_type r = Some ''neutral activity'' \<and>
          p_category r = Some ''habits'' \<and> p_sentiment r = inferSentimentFromText text) \<and>
       parseHabitText Throws text = r \<and> parseHabitText NoContent text = r \<and>
       parseHabitText NoJson text = r)"
proof -
  let ?r = "enhancedFallbackParse text"
  let ?rule = "first_rule (toLowerCase text)"
  have wf: "well_formed_rule rule" if "?rule = Some rule" for rule
    using that by (rule first_rule_well_formed)
  have act: "p_activity ?r \<noteq> []"
    using wf by (cases ?rule) (simp_all add: enhancedFallbackParse_def Let_def well_formed_rule_def)
  have ty: "\<exists>t. p_type ?r = Some t \<and> t \<noteq> []"
    using wf by (cases ?rule) (simp_all add: enhancedFallbackParse_def Let_def well_formed_rule_def)
  have cat: "\<exists>c. p_category ?r = Some c \<and> c \<noteq> []"
    using wf by (cases ?rule) (simp_all add: enhancedFallbackParse_def Let_def well_formed_rule_def)
  have sen: "p_sentiment ?r \<in> set [''positive'', ''neutral'', ''negative'']"
    using wf inferSentiment_values [of "text"]
    by (cases ?rule) (auto simp: enhancedFallbackParse_def Let_def well_formed_rule_def)
  have none: "p_activity ?r = ''unspecified activity'' \<and> p_type ?r = Some ''neutral activity'' \<and>
      p_category ?r = Some ''habits'' \<and> p_sentiment ?r = inferSentimentFromText text"
    if "\<not> list_ex (\<lambda>rule. includes_some (toLowerCase text) (r_patterns rule)) behaviorPatterns"
    using that by (simp add: enhancedFallbackParse_def Let_def first_rule_None [symmetric])
  have mood: "\<exists>m. p_mood ?r = Some m \<and> m \<noteq> []"
    using wf inferMood_nonempty [of "text"]
    by (cases ?rule) (auto simp: enhancedFallbackParse_def Let_def well_formed_rule_def or_null_def
        split: option.splits)
  have un: "p_unit ?r \<noteq> Some []"
    using quantity_match_unit [of "toLowerCase text"] canonical_unit_nonempty
    by (auto simp: enhancedFallbackParse_def Let_def)
  have trig: "p_trigger ?r \<noteq> Some []"
    using triggers_nonempty [of "toLowerCase text"]
    by (auto simp: enhancedFallbackParse_def Let_def)
  have nt: "p_notes ?r \<noteq> Some []"
    by (auto simp: enhancedFallbackParse_def Let_def)
  have ctx: "p_context ?r = None"
    by (simp add: enhancedFallbackParse_def Let_def)
  have "with_defaults text (as_json ?r) = ?r"
    using act ty cat sen mood un trig nt ctx
    by (cases ?r) (auto simp: with_defaults_def as_json_def or_else_def truthy_def or_null_def
        split: option.splits)
  then have "parseHabitText NoJson text = ?r"
    by (simp add: parseHabitText_def)
  with act ty sen none show ?thesis
    by (auto simp: Let_def parseHabitText_def)
qed

theorem fallback_parse_total_witness:
  "\<not> list_ex (\<lambda>rule. includes_some (toLowerCase ''Happy day outside with friends'')
       (r_patterns rule)) behaviorPatterns \<and>
   enhancedFallbackParse ''Happy day outside with friends'' =
     \<lparr>p_activity = ''unspecified activity'', p_category = Some ''habits'', p_quantity = None,
      p_unit = None, p_mood = Some ''happy'', p_sentiment = ''positive'', p_notes = None,
      p_tags = [''outdoor'', ''friends''], p_type = Some ''neutral activity'', p_trigger = None,
      p_context = None\<rparr> \<and>
   inferSentimentFromText ''Happy day outside with friends'' = ''positive'' \<and>
   parseHabitText NoJson ''Happy day outside with friends'' =
     enhancedFallbackParse ''Happy day outside with friends''"
proof -
  have no_rule: "\<not> list_ex (\<lambda>rule. includes_some (toLowerCase ''Happy day outside with friends'')
       (r_patterns rule)) behaviorPatterns"
    by code_simp
  have rec: "enhancedFallbackParse ''Happy day outside with friends'' =
     \<lparr>p_activity = ''unspecified activity'', p_category = Some ''habits'', p_quantity = None,
      p_unit = None, p_mood = Some ''happy'', p_sentiment = ''positive'', p_notes = None,
      p_tags = [''outdoor'', ''friends''], p_type = Some ''neutral activity'', p_trigger = None,
      p_context = None\<rparr>"
    by code_simp
  from fallback_parse_total [of "''Happy day outside with friends''", unfolded Let_def] no_rule
  have "p_sentiment (enhancedFallbackParse ''Happy day outside with friends'') =
          inferSentimentFromText ''Happy day outside with friends''"
    and "parseHabitText NoJson ''Happy day outside with friends'' =
          enhancedFallbackParse ''Happy day outside with friends''"
    by blast+
  with no_rule rec show ?thesis
    by simp
qed

subsection \<open>Creating an entry\<close>

lemma goal_loop_frame:
  "w_entries (snd (goal_loop f tz now act gs w)) = w_entries w \<and>
   w_log (snd (goal_loop f tz now act gs w)) = w_log w"
  by (induction gs arbitrary: w) (auto simp: Let_def split: option.splits)

lemma updateGoalProgress_frame:
  "w_entries (updateGoalProgress f tz now act q w) = w_entries w \<and>
   w_log (updateGoalProgress f tz now act q w) =
     w_log w @ (if goal_update_throws f tz now act w then [''Error updating goal progress:''] else [])"
  using goal_loop_frame [of f tz now act
      "filter (\<lambda>g. contains_insensitive (goal_activity g) act \<and> isActive g) (w_goals w)" w]
  by (auto simp: updateGoalProgress_def goal_update_throws_def Let_def split: prod.splits)

text \<open>
  C9. Once the body is read, has a raw text and an activity, and the entry is created, the
  request answers with success and the stored record, and the entry is in the store,
  whichever of the calls of the goal update fail. When the goal update runs and throws,
  the only trace is one line written by \<open>console.error\<close>.
\<close>

theorem goal_failure_not_propagated:
  assumes "\<not> json_fails f" and "\<not> create_fails f"
    and "truthy (b_rawText body) = Some rt" and "truthy (b_activity body) = Some act"
  shows "fst (POST f tz now body w) = Ok200 (new_entry now rt act body) \<and>
         w_entries (snd (POST f tz now body w)) = w_entries w @ [new_entry now rt act body] \<and>
         w_log (snd (POST f tz now body w)) =
           w_log w @
             (if truthy_number (b_quantity body) \<noteq> None \<and>
                 goal_update_throws f tz now act
                   (w\<lparr>w_entries := w_entries w @ [new_entry now rt act body]\<rparr>)
              then [''Error updating goal progress:''] else [])"
  using assms
  by (auto simp: POST_def Let_def updateGoalProgress_frame split: option.splits)

theorem goal_failure_not_propagated_witness:
  "\<not> json_fails failing_updates \<and> \<not> create_fails failing_updates \<and>
   truthy (b_rawText example_body) = Some ''ran 5km'' \<and>
   truthy (b_activity example_body) = Some ''run'' \<and>
   truthy_number (b_quantity example_body) \<noteq> None \<and>
   goal_update_throws failing_updates 0 1708300805000 ''run''
     \<lparr>w_entries = [new_entry 1708300805000 ''ran 5km'' ''run'' example_body],
      w_goals = [example_goal], w_log = []\<rparr> \<and>
   fst (POST failing_updates 0 1708300805000 example_body
          \<lparr>w_entries = [], w_goals = [example_goal], w_log = []\<rparr>) =
     Ok200 (new_entry 1708300805000 ''ran 5km'' ''run'' example_body) \<and>
   w_entries (snd (POST failing_updates 0 1708300805000 example_body
          \<lparr>w_entries = [], w_goals = [example_goal], w_log = []\<rparr>)) =
     [new_entry 1708300805000 ''ran 5km'' ''run'' example_body] \<and>
   w_log (snd (POST failing_updates 0 1708300805000 example_body
          \<lparr>w_entries = [], w_goals = [example_goal], w_log = []\<rparr>)) =
     [''Error updating goal progress:'']"
proof -
  let ?w = "\<lparr>w_entries = [], w_goals = [example_goal], w_log = []\<rparr>"
  have h1: "\<not> json_fails failing_updates" and h2: "\<not> create_fails failing_updates"
    by (simp_all add: failing_updates_def)
  have h3: "truthy (b_rawText example_body) = Some ''ran 5km''"
    and h4: "truthy (b_activity example_body) = Some ''run''"
    and q: "truthy_number (b_quantity example_body) \<noteq> None"
    by (simp_all add: example_body_def truthy_def or_null_def truthy_number_def)
  have throws: "goal_update_throws failing_updates 0 1708300805000 ''run''
     \<lparr>w_entries = [new_entry 1708300805000 ''ran 5km'' ''run'' example_body],
      w_goals = [example_goal], w_log = []\<rparr>"
    by code_simp
  from goal_failure_not_propagated [OF h1 h2 h3 h4, of 0 1708300805000 ?w] q throws
  have "fst (POST failing_updates 0 1708300805000 example_body ?w) =
          Ok200 (new_entry 1708300805000 ''ran 5km'' ''run'' example_body)"
    and "w_entries (snd (POST failing_updates 0 1708300805000 example_body ?w)) =
          [new_entry 1708300805000 ''ran 5km'' ''run'' example_body]"
    and "w_log (snd (POST failing_updates 0 1708300805000 example_body ?w)) =
          [''Error updating goal progress:'']"
    by simp_all
  with h1 h2 h3 h4 q throws show ?thesis
    by blast
qed

subsection \<open>Habit stacks\<close>

lemma few_entries_no_suggestions:
  "length (positive_entries now stored) < 3 \<Longrightarrow> generateStackingSuggestions now stored = []"
  by (simp add: generateStackingSuggestions_def Let_def)

lemma at_most_five_suggestions: "length (generateStackingSuggestions now stored) \<le> 5"
  by (simp add: generateStackingSuggestions_def Let_def)

lemma unseen_pairs_keys:
  "distinct (map pairKey (unseen_pairs seen ss)) \<and>
   set (map pairKey (unseen_pairs seen ss)) \<inter> set seen = {} \<and>
   set (unseen_pairs seen ss) \<subseteq> set ss"
proof (induction ss arbitrary: seen)
  case Nil
  show ?case by simp
next
  case (Cons s ss)
  from Cons [of seen] Cons [of "pairKey s # seen"] show ?case
    by auto
qed

lemma unseen_pairs_sorted:
  "sorted (map f ss) \<Longrightarrow> sorted (map f (unseen_pairs seen ss))"
proof (induction ss arbitrary: seen)
  case Nil
  show ?case by simp
next
  case (Cons s ss)
  from Cons.prems have tl: "sorted (map f ss)" and hd: "\<forall>t \<in> set ss. f s \<le> f t"
    by simp_all
  from hd unseen_pairs_keys [of "pairKey s # seen" ss]
  have "\<forall>t \<in> set (unseen_pairs (pairKey s # seen) ss). f s \<le> f t"
    by blast
  with Cons.IH [OF tl] show ?case
    by simp
qed

text \<open>
  What the list returned always satisfies: it is in the order of falling strength, no two
  of its suggestions have the same pair key, and each of them is a pair of the tables whose
  strength is at least one half and whose count is at least 2.
\<close>

lemma suggestions_sorted_and_distinct:
  "sorted (map (\<lambda>s. - strength s) (generateStackingSuggestions now stored)) \<and>
   distinct (map pairKey (generateStackingSuggestions now stored))"
proof -
  let ?all = "all_suggestions (foldl count_day ([], [])
                (map snd (dayGroups (positive_entries now stored))))"
  let ?kept = "unseen_pairs [] (sort_key (\<lambda>s. - strength s) ?all)"
  have "sorted (map (\<lambda>s. - strength s) (sort_key (\<lambda>s. - strength s) ?all))"
    by (rule sorted_sort_key)
  then have "sorted (map (\<lambda>s. - strength s) ?kept)"
    by (rule unseen_pairs_sorted)
  then have sorted: "sorted (map (\<lambda>s. - strength s) (take 5 ?kept))"
    by (simp add: take_map [symmetric] sorted_wrt_take)
  have "distinct (map pairKey ?kept)"
    using unseen_pairs_keys [of "[]"] by blast
  then have "distinct (map pairKey (take 5 ?kept))"
    by (simp add: take_map [symmetric])
  with sorted show ?thesis
    by (simp add: generateStackingSuggestions_def Let_def)
qed

lemma suggestion_thresholds:
  assumes "s \<in> set (generateStackingSuggestions now stored)"
  shows "\<exists>coActs n.
           (triggerHabit s, coActs) \<in> set (fst (mined_tables now stored)) \<and>
           (linkedHabit s, n) \<in> set coActs \<and>
           1 / 2 \<le> pair_strength (snd (mined_tables now stored)) (triggerHabit s) (linkedHabit s) n \<and>
           2 \<le> n \<and>
           strength s =
             js_round (pair_strength (snd (mined_tables now stored)) (triggerHabit s) (linkedHabit s) n * 100)"
proof -
  let ?tables = "foldl count_day ([], []) (map snd (dayGroups (positive_entries now stored)))"
  have js: "set (js_entries kvs) = set kvs" for kvs :: "(string \<times> 'v) list"
    by (auto simp: js_entries_def)
  from assms have "s \<in> set (take 5 (unseen_pairs [] (sort_key (\<lambda>s. - strength s) (all_suggestions ?tables))))"
    by (simp add: generateStackingSuggestions_def Let_def split: if_splits)
  then have "s \<in> set (unseen_pairs [] (sort_key (\<lambda>s. - strength s) (all_suggestions ?tables)))"
    by (rule in_set_takeD)
  with unseen_pairs_keys [of "[]" "sort_key (\<lambda>s. - strength s) (all_suggestions ?tables)"]
  have "s \<in> set (all_suggestions ?tables)"
    by auto
  then obtain a coActs b n where "(a, coActs) \<in> set (fst ?tables)" "(b, n) \<in> set coActs"
    "s \<in> set (suggest (snd ?tables) a (b, n))"
    by (auto simp: all_suggestions_def js)
  then show ?thesis
    unfolding mined_tables_def
    by (intro exI [of _ coActs] exI [of _ n]) (auto simp: suggest_def split: if_splits)
qed

text \<open>
  C5 does not hold of the code. Two pairs are merged when their keys, the two names
  sorted and joined by a hyphen, are the same text. In the example each of the two pairs
  (jog-run, walk) and (jog, run-walk) occurs on two days, with two days for each of the four
  activities: both have the strength 1 and the count 2, and all four directions are among
  the suggestions before the duplicates are removed. Both pairs have the key
  jog-run-walk, so the miner returns one suggestion, and none for jog and run-walk.
\<close>

theorem stack_pair_lost_to_key_collision:
  "map triggerHabit (generateStackingSuggestions 864000000 colliding_entries) = [''jog-run''] \<and>
   map linkedHabit (generateStackingSuggestions 864000000 colliding_entries) = [''walk''] \<and>
   length (positive_entries 864000000 colliding_entries) = 8 \<and>
   snd colliding_tables = [(''jog-run'', 2), (''walk'', 2), (''jog'', 2), (''run-walk'', 2)] \<and>
   fst colliding_tables =
     [(''jog-run'', [(''walk'', 2)]), (''walk'', [(''jog-run'', 2)]),
      (''jog'', [(''run-walk'', 2)]), (''run-walk'', [(''jog'', 2)])] \<and>
   pair_strength (snd colliding_tables) ''jog'' ''run-walk'' 2 = 1 \<and>
   map triggerHabit (all_suggestions colliding_tables) = [''jog-run'', ''walk'', ''jog'', ''run-walk''] \<and>
   map pairKey (all_suggestions colliding_tables) =
     [''jog-run-walk'', ''jog-run-walk'', ''jog-run-walk'', ''jog-run-walk'']"
  by code_simp

end
